theory Spec2Isabelle
  imports Complex_Main "HOL-Library.Sublist"
begin

section \<open>Strings of the source language\<close>

text \<open>
  A JavaScript string is a sequence of code units; it is modelled as a \<open>string\<close>, one
  \<open>char\<close> per code unit, so the texts covered are those whose code units are below 256.
  \<open>substring(0, n)\<close> is \<open>take n\<close>, template literals and \<open>+=\<close> are \<open>@\<close>.
\<close>

definition nl :: string where
  "nl = [CHR 0x0A]"

definition dq :: string where
  "dq = [CHR 0x22]"

text \<open>A value is falsy in a condition when it is \<open>undefined\<close> (\<open>None\<close>) or the empty string.\<close>

definition falsy :: "string option \<Rightarrow> bool" where
  "falsy v = (case v of None \<Rightarrow> True | Some t \<Rightarrow> t = [])"

text \<open>\<open>v || d\<close> on an optional string.\<close>

definition or_else :: "string option \<Rightarrow> string \<Rightarrow> string" where
  "or_else v d = (case v of None \<Rightarrow> d | Some t \<Rightarrow> if t = [] then d else t)"

text \<open>
  \<open>String.prototype.trim\<close>: the white space and line terminator code units below 256 are
  TAB, LF, VT, FF, CR, SP and NBSP.
\<close>

definition js_whitespace :: "char \<Rightarrow> bool" where
  "js_whitespace c =
     (c \<in> set [CHR 0x09, CHR 0x0A, CHR 0x0B, CHR 0x0C, CHR 0x0D, CHR 0x20, CHR 0xA0])"

definition trim :: "string \<Rightarrow> string" where
  "trim t = rev (dropWhile js_whitespace (rev (dropWhile js_whitespace t)))"

text \<open>
  \<open>String.prototype.toLowerCase\<close> on code units below 256: the letters A to Z and the
  Latin-1 capitals U+00C0 to U+00DE (the multiplication sign U+00D7 apart) become their
  small letters, 32 places further on; every other code unit stays.
\<close>

definition upper_chars :: string where
  "upper_chars =
     ''ABCDEFGHIJKLMNOPQRSTUVWXYZ''
     @ [CHR 0xC0, CHR 0xC1, CHR 0xC2, CHR 0xC3, CHR 0xC4, CHR 0xC5, CHR 0xC6, CHR 0xC7,
        CHR 0xC8, CHR 0xC9, CHR 0xCA, CHR 0xCB, CHR 0xCC, CHR 0xCD, CHR 0xCE, CHR 0xCF,
        CHR 0xD0, CHR 0xD1, CHR 0xD2, CHR 0xD3, CHR 0xD4, CHR 0xD5, CHR 0xD6,
        CHR 0xD8, CHR 0xD9, CHR 0xDA, CHR 0xDB, CHR 0xDC, CHR 0xDD, CHR 0xDE]"

definition lower_chars :: string where
  "lower_chars =
     ''abcdefghijklmnopqrstuvwxyz''
     @ [CHR 0xE0, CHR 0xE1, CHR 0xE2, CHR 0xE3, CHR 0xE4, CHR 0xE5, CHR 0xE6, CHR 0xE7,
        CHR 0xE8, CHR 0xE9, CHR 0xEA, CHR 0xEB, CHR 0xEC, CHR 0xED, CHR 0xEE, CHR 0xEF,
        CHR 0xF0, CHR 0xF1, CHR 0xF2, CHR 0xF3, CHR 0xF4, CHR 0xF5, CHR 0xF6,
        CHR 0xF8, CHR 0xF9, CHR 0xFA, CHR 0xFB, CHR 0xFC, CHR 0xFD, CHR 0xFE]"

definition lower_char :: "char \<Rightarrow> char" where
  "lower_char c = (case map_of (zip upper_chars lower_chars) c of None \<Rightarrow> c | Some d \<Rightarrow> d)"

definition toLowerCase :: "string \<Rightarrow> string" where
  "toLowerCase t = map lower_char t"

text \<open>\<open>t.includes(q)\<close>: \<open>q\<close> occurs in \<open>t\<close> as a contiguous block.\<close>

fun js_includes :: "string \<Rightarrow> string \<Rightarrow> bool" where
  "js_includes [] q = (q = [])"
| "js_includes (c # cs) q = (prefix q (c # cs) \<or> js_includes cs q)"

text \<open>\<open>Array.prototype.findIndex\<close>: the index of the first element that satisfies the
  predicate, and \<open>-1\<close> when there is none.\<close>

fun findIndex :: "('a \<Rightarrow> bool) \<Rightarrow> 'a list \<Rightarrow> int" where
  "findIndex P [] = - 1"
| "findIndex P (x # xs) =
     (if P x then 0
      else (let r = findIndex P xs in if r = - 1 then - 1 else r + 1))"

text \<open>\<open>Array.prototype.join\<close> with a separator.\<close>

fun join :: "string \<Rightarrow> string list \<Rightarrow> string" where
  "join sep [] = []"
| "join sep [t] = t"
| "join sep (t # u # ts) = t @ sep @ join sep (u # ts)"

text \<open>The decimal numeral of a page number, as a template literal prints it.\<close>

definition digit_char :: "nat \<Rightarrow> char" where
  "digit_char d = ''0123456789'' ! d"

function show_nat :: "nat \<Rightarrow> string" where
  "show_nat n = (if n < 10 then [digit_char n] else show_nat (n div 10) @ [digit_char (n mod 10)])"
  by pat_completeness auto
termination
  by (relation "measure (\<lambda>n. n)") auto

declare show_nat.simps [simp del]

section \<open>services/pdfService.ts\<close>

text \<open>
  What the PDF library makes of a file: a document is the list of its pages, a page is
  the list of the \<open>str\<close> fields of its text items, or \<open>None\<close> when \<open>getPage\<close> or
  \<open>getTextContent\<close> rejects.
\<close>

type_synonym pdf_page = "string list option"
type_synonym pdf_doc = "pdf_page list"

record File =
  file_name :: string
  file_type :: string
  object_url :: string
  file_pdf :: "pdf_doc option"

record ExtractedData =
  fullText :: string
  x_pageTexts :: "string list"
  x_numPages :: int

definition page_block :: "nat \<Rightarrow> string \<Rightarrow> string" where
  "page_block i pageText =
     ''--- Page '' @ show_nat i @ '' ---'' @ nl @ pageText @ nl @ nl"

text \<open>The loop of \<open>extractTextFromPDF\<close>, from page \<open>i\<close> on, with its two accumulators.\<close>

function extract_loop :: "pdf_doc \<Rightarrow> nat \<Rightarrow> string \<Rightarrow> string list \<Rightarrow> (string \<times> string list) option" where
  "extract_loop pdf i ft pts =
     (if i \<le> length pdf then
        (case pdf ! (i - 1) of
           None \<Rightarrow> None
         | Some items \<Rightarrow>
             (let pageText = join '' '' items
              in extract_loop pdf (i + 1) (ft @ page_block i pageText) (pts @ [pageText])))
      else Some (ft, pts))"
  by pat_completeness auto
termination
  by (relation "measure (\<lambda>(pdf, i, ft, pts). Suc (length pdf) - i)") auto

declare extract_loop.simps [simp del]

definition extractTextFromPDF :: "File \<Rightarrow> ExtractedData option" where
  "extractTextFromPDF file =
     (case file_pdf file of
        None \<Rightarrow> None
      | Some pdf \<Rightarrow>
          (case extract_loop pdf 1 [] [] of
             None \<Rightarrow> None
           | Some (ft, pts) \<Rightarrow>
               Some \<lparr>fullText = ft, x_pageTexts = pts, x_numPages = int (length pdf)\<rparr>))"

text \<open>
  The join the specification speaks of: the page texts in order, each one headed by its
  page marker and closed by the page separator.
\<close>

fun page_join :: "nat \<Rightarrow> string list \<Rightarrow> string" where
  "page_join i [] = []"
| "page_join i (t # ts) = page_block i t @ page_join (Suc i) ts"

definition join_pages :: "string list \<Rightarrow> string" where
  "join_pages pts = page_join 1 pts"

section \<open>services/geminiService.ts\<close>

datatype exn = Error string

datatype ai_reply = Reply "string option" | Rejected "string option"

record generate_request =
  g_model :: string
  g_contents :: string

record chat_request =
  c_model :: string
  c_systemInstruction :: string
  c_message :: string

text \<open>
  The surroundings of a call: the API key of the process and what the provider answers
  to a request, either a response with its optional \<open>text\<close> or a rejection with its
  optional \<open>message\<close>.
\<close>

record environment =
  API_KEY :: "string option"
  generateContent :: "generate_request \<Rightarrow> ai_reply"
  sendMessage :: "chat_request \<Rightarrow> ai_reply"

definition getAIClient :: "environment \<Rightarrow> exn + unit" where
  "getAIClient env =
     (if falsy (API_KEY env) then Inl (Error ''API Key is missing'') else Inr ())"

definition model_name :: string where
  "model_name = ''gemini-3-pro-preview''"

definition prompt_head :: string where
  "prompt_head =
     nl @ ''    You are a professional document editor and analyst.'' @ nl
     @ ''    Below is the content of a PDF document:'' @ nl
     @ ''    --- DOCUMENT START ---'' @ nl
     @ ''    ''"

definition prompt_tail :: "string \<Rightarrow> string \<Rightarrow> string" where
  "prompt_tail actionPrompt ctx =
     '' // Truncate if too long for safety'' @ nl
     @ ''    --- DOCUMENT END ---'' @ nl
     @ nl
     @ ''    Instruction: '' @ actionPrompt @ nl
     @ ''    '' @ (if ctx \<noteq> [] then ''Additional Context/User Input: '' @ ctx else []) @ nl
     @ nl
     @ ''    Please provide a high-quality response. If the request is to '' @ dq @ ''rewrite'' @ dq
     @ '', '' @ dq @ ''summarize'' @ dq @ '', or '' @ dq @ ''transform'' @ dq
     @ '', provide the new content clearly.'' @ nl
     @ ''  ''"

text \<open>The template literal \<open>prompt\<close>: the text before the document, the document cut by
  \<open>substring(0, 15000)\<close>, and the text after it.\<close>

definition action_prompt :: "string \<Rightarrow> string \<Rightarrow> string \<Rightarrow> string" where
  "action_prompt docText actionPrompt ctx =
     prompt_head @ take 15000 docText @ prompt_tail actionPrompt ctx"

definition action_request :: "string \<Rightarrow> string \<Rightarrow> string \<Rightarrow> generate_request" where
  "action_request docText actionPrompt ctx =
     \<lparr>g_model = model_name, g_contents = action_prompt docText actionPrompt ctx\<rparr>"

definition processDocumentAction :: "environment \<Rightarrow> string \<Rightarrow> string \<Rightarrow> string \<Rightarrow> exn + string" where
  "processDocumentAction env docText actionPrompt ctx =
     (case getAIClient env of
        Inl e \<Rightarrow> Inl e
      | Inr ai \<Rightarrow>
          (case generateContent env (action_request docText actionPrompt ctx) of
             Reply t \<Rightarrow> Inr (or_else t (''I couldn'' @ [CHR 0x27] @ ''t process the request. Please try again.''))
           | Rejected m \<Rightarrow> Inr (''Error: '' @ or_else m ''Failed to communicate with AI'')))"

definition instruction_head :: string where
  "instruction_head =
     nl @ ''    You are OmniPDF Assistant. You have full access to the document text provided below.'' @ nl
     @ ''    Answer questions based ONLY on the document content where possible.'' @ nl
     @ ''    If the information is not in the document, state that clearly but try to be helpful.'' @ nl
     @ ''    Document content:'' @ nl
     @ ''    ''"

definition instruction_tail :: string where
  "instruction_tail = nl @ ''  ''"

text \<open>The template literal \<open>systemInstruction\<close>, with the document cut by
  \<open>substring(0, 20000)\<close>.\<close>

definition system_instruction :: "string \<Rightarrow> string" where
  "system_instruction docText = instruction_head @ take 20000 docText @ instruction_tail"

datatype Role = User | Assistant

record ChatMessage =
  role :: Role
  content :: string

definition chat_request_of :: "string \<Rightarrow> ChatMessage list \<Rightarrow> string \<Rightarrow> chat_request" where
  "chat_request_of docText history userMessage =
     \<lparr>c_model = model_name, c_systemInstruction = system_instruction docText,
      c_message = userMessage\<rparr>"

definition chatWithDocument :: "environment \<Rightarrow> string \<Rightarrow> ChatMessage list \<Rightarrow> string \<Rightarrow> exn + string" where
  "chatWithDocument env docText history userMessage =
     (case getAIClient env of
        Inl e \<Rightarrow> Inl e
      | Inr ai \<Rightarrow>
          (case sendMessage env (chat_request_of docText history userMessage) of
             Reply t \<Rightarrow> Inr (or_else t ''No response received.'')
           | Rejected m \<Rightarrow> Inr ''Something went wrong during the conversation.''))"

section \<open>The component: state\<close>

record EditAction =
  action_id :: string
  label :: string
  description :: string
  prompt :: string
  icon :: string

definition EDIT_ACTIONS :: "EditAction list" where
  "EDIT_ACTIONS =
     [\<lparr>action_id = ''summarize'', label = ''Summarize'',
       description = ''Create a concise summary of the document.'',
       prompt = ''Summarize the core points of this document in bullet points.'',
       icon = ''Layout''\<rparr>,
      \<lparr>action_id = ''rewrite-formal'', label = ''Formal Rewrite'',
       description = ''Rewrite the text in a highly professional tone.'',
       prompt = ''Rewrite the entire content to be more formal and academic.'',
       icon = ''Edit3''\<rparr>,
      \<lparr>action_id = ''extract-data'', label = ''Extract Key Data'',
       description = ''Find entities, dates, and amounts.'',
       prompt = ''Extract all key entities, dates, financial amounts, and specific action items from this document as a clean list.'',
       icon = ''FileText''\<rparr>,
      \<lparr>action_id = ''translate-es'', label = ''Translate (ES)'',
       description = ''Translate the main content to Spanish.'',
       prompt = ''Translate the main content of this document into professional Spanish.'',
       icon = ''ChevronRight''\<rparr>]"

text \<open>The fields \<open>file\<close> and \<open>text\<close> of \<open>PDFState\<close> carry a prime here.\<close>

record PDFState =
  file' :: "File option"
  url :: "string option"
  text' :: string
  pageTexts :: "string list"
  numPages :: int
  isProcessing :: bool
  error :: "string option"

datatype Tab = View | Edit | Chat

text \<open>
  The state hooks and the document reference of \<open>App\<close>. The zoom factor is a
  floating-point number in the source and a real number here; the canvas and the
  \<open>isRendering\<close> flag of the page renderer are left out.
\<close>

record app =
  pdfState :: PDFState
  activeTab :: Tab
  chatHistory :: "ChatMessage list"
  userInput :: string
  editedContent :: string
  isAiLoading :: bool
  zoom :: real
  currentPage :: int
  searchQuery :: string
  pdfDocRef :: "pdf_doc option"

definition init_app :: app where
  "init_app =
     \<lparr>pdfState = \<lparr>file' = None, url = None, text' = [], pageTexts = [], numPages = 0,
                   isProcessing = False, error = None\<rparr>,
      activeTab = View, chatHistory = [], userInput = [], editedContent = [],
      isAiLoading = False, zoom = 1, currentPage = 1, searchQuery = [], pdfDocRef = None\<rparr>"

text \<open>
  An asynchronous handler runs up to its first \<open>await\<close> when the event arrives and leaves
  the rest of its body pending; the pending part runs later, on the state of that moment.
  A task records what the awaited call will deliver.
\<close>

datatype task =
    UploadTask File
  | ActionTask "exn + string"
  | ChatTask "exn + string"

section \<open>The component: handlers\<close>

text \<open>
  \<open>handleFileUpload\<close> up to its first \<open>await\<close>: the guard on the type of the file and the
  reset of the document state.
\<close>

definition handleFileUpload_start :: "app \<Rightarrow> File option \<Rightarrow> app \<times> task option" where
  "handleFileUpload_start s f =
     (case f of
        None \<Rightarrow>
          (s\<lparr>pdfState := (pdfState s)\<lparr>error := Some ''Please upload a valid PDF file.''\<rparr>\<rparr>, None)
      | Some fl \<Rightarrow>
          if file_type fl \<noteq> ''application/pdf'' then
            (s\<lparr>pdfState := (pdfState s)\<lparr>error := Some ''Please upload a valid PDF file.''\<rparr>\<rparr>, None)
          else
            (s\<lparr>pdfState := \<lparr>file' = Some fl, url = Some (object_url fl), text' = [],
                              pageTexts = [], numPages = 0, isProcessing = True,
                              error = None\<rparr>\<rparr>,
             Some (UploadTask fl)))"

definition upload_failed :: "app \<Rightarrow> app" where
  "upload_failed s =
     s\<lparr>pdfState := (pdfState s)\<lparr>isProcessing := False,
                                   error := Some ''Failed to extract text from PDF.''\<rparr>\<rparr>"

text \<open>
  The rest of \<open>handleFileUpload\<close>: the document is opened and kept in the reference, its
  texts are extracted and stored, and the page number is set to 1; a rejection on the way
  ends in the \<open>catch\<close> block.
\<close>

definition handleFileUpload_finish :: "app \<Rightarrow> File \<Rightarrow> app" where
  "handleFileUpload_finish s fl =
     (case file_pdf fl of
        None \<Rightarrow> upload_failed s
      | Some pdf \<Rightarrow>
          (let s1 = s\<lparr>pdfDocRef := Some pdf\<rparr>
           in case extractTextFromPDF fl of
                None \<Rightarrow> upload_failed s1
              | Some d \<Rightarrow>
                  s1\<lparr>pdfState := (pdfState s1)\<lparr>text' := fullText d, pageTexts := x_pageTexts d,
                                                  numPages := x_numPages d, isProcessing := False\<rparr>,
                     currentPage := 1\<rparr>))"

definition handleSearch :: "app \<Rightarrow> app" where
  "handleSearch s =
     (if trim (searchQuery s) = [] then s
      else
        (let lowerQuery = toLowerCase (searchQuery s);
             foundPageIndex =
               findIndex (\<lambda>t. js_includes (toLowerCase t) lowerQuery) (pageTexts (pdfState s))
         in if foundPageIndex \<noteq> - 1 then s\<lparr>currentPage := foundPageIndex + 1\<rparr> else s))"

text \<open>
  \<open>handleAction\<close> and \<open>handleSendMessage\<close>, each up to the \<open>await\<close> of its service call
  and from there on; \<open>Inl\<close> is the exception that the \<open>catch\<close> block receives.
\<close>

definition handleAction_start :: "app \<Rightarrow> environment \<Rightarrow> EditAction \<Rightarrow> app \<times> task option" where
  "handleAction_start s env action =
     (if text' (pdfState s) = [] then (s, None)
      else
        (s\<lparr>isAiLoading := True, activeTab := Edit\<rparr>,
         Some (ActionTask (processDocumentAction env (text' (pdfState s)) (prompt action) []))))"

definition handleAction_finish :: "app \<Rightarrow> exn + string \<Rightarrow> app" where
  "handleAction_finish s r =
     (case r of
        Inr result \<Rightarrow> s\<lparr>editedContent := result, isAiLoading := False\<rparr>
      | Inl err \<Rightarrow> s\<lparr>isAiLoading := False\<rparr>)"

definition handleSendMessage_start :: "app \<Rightarrow> environment \<Rightarrow> app \<times> task option" where
  "handleSendMessage_start s env =
     (if trim (userInput s) = [] \<or> text' (pdfState s) = [] \<or> isAiLoading s then (s, None)
      else
        (let userMsg = \<lparr>role = User, content = userInput s\<rparr>
         in (s\<lparr>chatHistory := chatHistory s @ [userMsg], userInput := [], isAiLoading := True\<rparr>,
             Some (ChatTask (chatWithDocument env (text' (pdfState s)) (chatHistory s)
                               (userInput s))))))"

definition handleSendMessage_finish :: "app \<Rightarrow> exn + string \<Rightarrow> app" where
  "handleSendMessage_finish s r =
     (case r of
        Inr aiResponse \<Rightarrow>
          s\<lparr>chatHistory := chatHistory s @ [\<lparr>role = Assistant, content = aiResponse\<rparr>],
            isAiLoading := False\<rparr>
      | Inl err \<Rightarrow>
          s\<lparr>chatHistory := chatHistory s
                 @ [\<lparr>role = Assistant, content = ''Sorry, I failed to process that.''\<rparr>],
            isAiLoading := False\<rparr>)"

text \<open>The close button of the header.\<close>

definition close_click :: "app \<Rightarrow> app" where
  "close_click s =
     s\<lparr>pdfDocRef := None,
       pdfState := \<lparr>file' = None, url = None, text' = [], pageTexts = [], numPages = 0,
                     isProcessing = False, error = None\<rparr>\<rparr>"

text \<open>The zoom buttons of the toolbar.\<close>

definition zoom_out_click :: "app \<Rightarrow> app" where
  "zoom_out_click s = s\<lparr>zoom := max (1 / 2) (zoom s - 1 / 10)\<rparr>"

definition zoom_in_click :: "app \<Rightarrow> app" where
  "zoom_in_click s = s\<lparr>zoom := min 3 (zoom s + 1 / 10)\<rparr>"

definition zoom_reset_click :: "app \<Rightarrow> app" where
  "zoom_reset_click s = s\<lparr>zoom := 1\<rparr>"

text \<open>
  The page controls of the toolbar: the two buttons and the number field, whose value
  \<open>parseInt\<close> turns into an integer or into NaN (\<open>None\<close>).
\<close>

definition prev_click :: "app \<Rightarrow> app" where
  "prev_click s = s\<lparr>currentPage := max 1 (currentPage s - 1)\<rparr>"

definition next_click :: "app \<Rightarrow> app" where
  "next_click s = s\<lparr>currentPage := min (numPages (pdfState s)) (currentPage s + 1)\<rparr>"

definition page_input :: "app \<Rightarrow> int option \<Rightarrow> app" where
  "page_input s v =
     (case v of
        None \<Rightarrow> s
      | Some val \<Rightarrow>
          if val \<ge> 1 \<and> val \<le> numPages (pdfState s) then s\<lparr>currentPage := val\<rparr> else s)"

section \<open>The component: events\<close>

text \<open>
  The events the rendered page can deliver. The upload screen, shown while no file is
  held, has the file input only; the workspace, shown otherwise, has the close button, the
  tabs and the quick actions, the toolbar on the preview tab and the message form on the
  chat tab. \<open>Resolve k\<close> is the completion of the \<open>k\<close>-th pending call. The overlay
  shown while a file is processed is not taken to block the controls, and the export
  button, which changes no state, is left out.
\<close>

datatype event =
    SelectFile "File option"
  | Close
  | SetActiveTab Tab
  | ClickAction environment nat
  | ZoomOut
  | ZoomIn
  | ZoomReset
  | PrevPage
  | NextPage
  | PageInput "int option"
  | TypeSearch string
  | SubmitSearch
  | TypeChat string
  | SubmitChat environment
  | Resolve nat

fun enabled :: "app \<Rightarrow> event \<Rightarrow> bool" where
  "enabled s (SelectFile f) = (file' (pdfState s) = None)"
| "enabled s Close = (file' (pdfState s) \<noteq> None)"
| "enabled s (SetActiveTab t) = (file' (pdfState s) \<noteq> None)"
| "enabled s (ClickAction env k) = (file' (pdfState s) \<noteq> None \<and> k < length EDIT_ACTIONS)"
| "enabled s ZoomOut = (file' (pdfState s) \<noteq> None \<and> activeTab s = View)"
| "enabled s ZoomIn = (file' (pdfState s) \<noteq> None \<and> activeTab s = View)"
| "enabled s ZoomReset = (file' (pdfState s) \<noteq> None \<and> activeTab s = View)"
| "enabled s PrevPage =
     (file' (pdfState s) \<noteq> None \<and> activeTab s = View \<and> currentPage s \<noteq> 1)"
| "enabled s NextPage =
     (file' (pdfState s) \<noteq> None \<and> activeTab s = View \<and> currentPage s \<noteq> numPages (pdfState s))"
| "enabled s (PageInput v) = (file' (pdfState s) \<noteq> None \<and> activeTab s = View)"
| "enabled s (TypeSearch q) = (file' (pdfState s) \<noteq> None \<and> activeTab s = View)"
| "enabled s SubmitSearch = (file' (pdfState s) \<noteq> None \<and> activeTab s = View)"
| "enabled s (TypeChat t) = (file' (pdfState s) \<noteq> None \<and> activeTab s = Chat)"
| "enabled s (SubmitChat env) = (file' (pdfState s) \<noteq> None \<and> activeTab s = Chat)"
| "enabled s (Resolve k) = True"

fun handle :: "app \<Rightarrow> event \<Rightarrow> app \<times> task option" where
  "handle s (SelectFile f) = handleFileUpload_start s f"
| "handle s Close = (close_click s, None)"
| "handle s (SetActiveTab t) = (s\<lparr>activeTab := t\<rparr>, None)"
| "handle s (ClickAction env k) = handleAction_start s env (EDIT_ACTIONS ! k)"
| "handle s ZoomOut = (zoom_out_click s, None)"
| "handle s ZoomIn = (zoom_in_click s, None)"
| "handle s ZoomReset = (zoom_reset_click s, None)"
| "handle s PrevPage = (prev_click s, None)"
| "handle s NextPage = (next_click s, None)"
| "handle s (PageInput v) = (page_input s v, None)"
| "handle s (TypeSearch q) = (s\<lparr>searchQuery := q\<rparr>, None)"
| "handle s SubmitSearch = (handleSearch s, None)"
| "handle s (TypeChat t) = (s\<lparr>userInput := t\<rparr>, None)"
| "handle s (SubmitChat env) = handleSendMessage_start s env"
| "handle s (Resolve k) = (s, None)"

fun finish :: "app \<Rightarrow> task \<Rightarrow> app" where
  "finish s (UploadTask fl) = handleFileUpload_finish s fl"
| "finish s (ActionTask r) = handleAction_finish s r"
| "finish s (ChatTask r) = handleSendMessage_finish s r"

record world =
  app_of :: app
  pending :: "task list"

definition init_world :: world where
  "init_world = \<lparr>app_of = init_app, pending = []\<rparr>"

definition spawn :: "task option \<Rightarrow> task list" where
  "spawn t = (case t of None \<Rightarrow> [] | Some x \<Rightarrow> [x])"

definition step :: "world \<Rightarrow> event \<Rightarrow> world" where
  "step w ev =
     (case ev of
        Resolve k \<Rightarrow>
          if k < length (pending w) then
            \<lparr>app_of = finish (app_of w) (pending w ! k),
             pending = take k (pending w) @ drop (Suc k) (pending w)\<rparr>
          else w
      | _ \<Rightarrow>
          if enabled (app_of w) ev then
            \<lparr>app_of = fst (handle (app_of w) ev),
             pending = pending w @ spawn (snd (handle (app_of w) ev))\<rparr>
          else w)"

definition run :: "world \<Rightarrow> event list \<Rightarrow> world" where
  "run w evs = foldl step w evs"

text \<open>The session status of the specification, read off the document state.\<close>

datatype status = Empty | Loading | Ready | Failed

definition status_of :: "PDFState \<Rightarrow> status" where
  "status_of p =
     (if file' p = None then Empty
      else if isProcessing p then Loading
      else if error p \<noteq> None then Failed
      else Ready)"

text \<open>
  The invariant of the document state the specification asks for: one text per page, the
  full text the join of the page texts, and nothing held while a file is being processed.
\<close>

definition doc_consistent :: "PDFState \<Rightarrow> bool" where
  "doc_consistent p =
     (numPages p = int (length (pageTexts p)) \<and> text' p = join_pages (pageTexts p)
      \<and> (isProcessing p \<longrightarrow> pageTexts p = []))"

text \<open>
  A sequence of events closes the workspace only when no file is being processed, and
  the states such sequences lead to: nothing is held unless the session is ready, and an
  extraction is pending only while the session is loading, and then only one.
\<close>

fun settled_closes :: "world \<Rightarrow> event list \<Rightarrow> bool" where
  "settled_closes w [] = True"
| "settled_closes w (Close # evs) =
     (status_of (pdfState (app_of w)) \<noteq> Loading \<and> settled_closes (step w Close) evs)"
| "settled_closes w (ev # evs) = settled_closes (step w ev) evs"

fun upload_pending :: "task \<Rightarrow> bool" where
  "upload_pending (UploadTask fl) = True"
| "upload_pending (ActionTask r) = False"
| "upload_pending (ChatTask r) = False"

definition settled :: "world \<Rightarrow> bool" where
  "settled w =
     ((status_of (pdfState (app_of w)) \<noteq> Ready \<longrightarrow>
         pageTexts (pdfState (app_of w)) = [] \<and> numPages (pdfState (app_of w)) = 0
         \<and> text' (pdfState (app_of w)) = [])
      \<and> (isProcessing (pdfState (app_of w)) \<longrightarrow>
           file' (pdfState (app_of w)) \<noteq> None \<and> error (pdfState (app_of w)) = None)
      \<and> (filter upload_pending (pending w) \<noteq> [] \<longrightarrow>
           status_of (pdfState (app_of w)) = Loading
           \<and> length (filter upload_pending (pending w)) = 1))"

section \<open>Sample sessions\<close>

text \<open>Files, providers and event sequences on which the handlers are run below.\<close>

definition report_pdf :: File where
  "report_pdf =
     \<lparr>file_name = ''report.pdf'', file_type = ''application/pdf'', object_url = ''blob:report'',
      file_pdf = Some [Some [''Q1'', ''Revenue''], Some [''Q2'', ''Revenue''], Some [''Summary'']]\<rparr>"

definition fruit_pdf :: File where
  "fruit_pdf =
     \<lparr>file_name = ''fruit.pdf'', file_type = ''application/pdf'', object_url = ''blob:fruit'',
      file_pdf = Some [Some [''apple'', ''pie''], Some [''banana'', ''split''],
                       Some [''cherry'', ''tart'']]\<rparr>"

definition broken_pdf :: File where
  "broken_pdf =
     \<lparr>file_name = ''broken.pdf'', file_type = ''application/pdf'', object_url = ''blob:broken'',
      file_pdf = None\<rparr>"

definition notes_txt :: File where
  "notes_txt =
     \<lparr>file_name = ''notes.txt'', file_type = ''text/plain'', object_url = ''blob:notes'',
      file_pdf = None\<rparr>"

definition provider_ok :: environment where
  "provider_ok =
     \<lparr>API_KEY = Some ''key'',
      generateContent = (\<lambda>r. Reply (Some ''Three quarters of revenue.'')),
      sendMessage = (\<lambda>r. Reply (Some ''Revenue grew.''))\<rparr>"

definition provider_down :: environment where
  "provider_down =
     \<lparr>API_KEY = Some ''key'',
      generateContent = (\<lambda>r. Rejected (Some ''quota exceeded'')),
      sendMessage = (\<lambda>r. Rejected (Some ''quota exceeded''))\<rparr>"

definition no_key :: environment where
  "no_key =
     \<lparr>API_KEY = None,
      generateContent = (\<lambda>r. Reply (Some ''Three quarters of revenue.'')),
      sendMessage = (\<lambda>r. Reply (Some ''Revenue grew.''))\<rparr>"

text \<open>A provider that hands back what it was sent: the contents of a generation request,
  the system instruction of a chat request.\<close>

definition provider_echo :: environment where
  "provider_echo =
     \<lparr>API_KEY = Some ''key'',
      generateContent = (\<lambda>r. Reply (Some (g_contents r))),
      sendMessage = (\<lambda>r. Reply (Some (c_systemInstruction r)))\<rparr>"

text \<open>A provider that answers a chat message with \<open>re: \<close> and the message.\<close>

definition provider_reply :: environment where
  "provider_reply =
     \<lparr>API_KEY = Some ''key'',
      generateContent = (\<lambda>r. Reply (Some ''Three quarters of revenue.'')),
      sendMessage = (\<lambda>r. Reply (Some (''re: '' @ c_message r)))\<rparr>"

text \<open>A provider whose responses carry no text.\<close>

definition provider_silent :: environment where
  "provider_silent =
     \<lparr>API_KEY = Some ''key'',
      generateContent = (\<lambda>r. Reply None),
      sendMessage = (\<lambda>r. Reply None)\<rparr>"

text \<open>A document is loaded, read, summarised and discussed.\<close>

definition worked_session :: "event list" where
  "worked_session =
     [SelectFile (Some report_pdf), Resolve 0, NextPage, ZoomIn,
      ClickAction provider_ok 0, Resolve 0,
      SetActiveTab Chat, TypeChat ''hi'', SubmitChat provider_ok, Resolve 0]"

definition viewing_page_two :: "event list" where
  "viewing_page_two = [SelectFile (Some report_pdf), Resolve 0, NextPage]"

text \<open>The state a loaded \<open>report_pdf\<close> leaves when nothing else has happened.\<close>

definition report_ready :: app where
  "report_ready =
     init_app\<lparr>pdfState :=
                \<lparr>file' = Some report_pdf, url = Some ''blob:report'',
                 text' = join_pages [''Q1 Revenue'', ''Q2 Revenue'', ''Summary''],
                 pageTexts = [''Q1 Revenue'', ''Q2 Revenue'', ''Summary''], numPages = 3,
                 isProcessing = False, error = None\<rparr>,
              pdfDocRef := file_pdf report_pdf\<rparr>"

definition chat_ready :: app where
  "chat_ready = report_ready\<lparr>activeTab := Chat, userInput := ''hi''\<rparr>"

text \<open>The state \<open>worked_session\<close> ends in.\<close>

definition worked_state :: app where
  "worked_state =
     report_ready\<lparr>activeTab := Chat,
                  chatHistory := [\<lparr>role = User, content = ''hi''\<rparr>,
                                  \<lparr>role = Assistant, content = ''Revenue grew.''\<rparr>],
                  editedContent := ''Three quarters of revenue.'',
                  zoom := 11 / 10, currentPage := 2\<rparr>"

text \<open>The workspace is closed after the session, and another file is selected.\<close>

definition closed_session :: "event list" where
  "closed_session = worked_session @ [Close]"

definition reupload_session :: "event list" where
  "reupload_session = worked_session @ [Close, SelectFile (Some fruit_pdf)]"

text \<open>A summary is drawn, then a second action is sent to a provider that rejects it.\<close>

definition summarised_session :: "event list" where
  "summarised_session =
     [SelectFile (Some report_pdf), Resolve 0, ClickAction provider_ok 0, Resolve 0]"

definition failed_transform_session :: "event list" where
  "failed_transform_session = summarised_session @ [ClickAction provider_down 1, Resolve 0]"

text \<open>On page two of the fruit document, a single space is typed into the search box.\<close>

definition blank_search_session :: "event list" where
  "blank_search_session =
     [SelectFile (Some fruit_pdf), Resolve 0, NextPage, TypeSearch '' '']"

definition fruit_ready :: app where
  "fruit_ready =
     init_app\<lparr>pdfState :=
                \<lparr>file' = Some fruit_pdf, url = Some ''blob:fruit'',
                 text' = join_pages [''apple pie'', ''banana split'', ''cherry tart''],
                 pageTexts = [''apple pie'', ''banana split'', ''cherry tart''], numPages = 3,
                 isProcessing = False, error = None\<rparr>,
              pdfDocRef := file_pdf fruit_pdf\<rparr>"

text \<open>A file that the PDF library cannot read is selected, and the extraction fails.\<close>

definition failed_load_session :: "event list" where
  "failed_load_session = [SelectFile (Some broken_pdf), Resolve 0]"



text \<open>The workspace is closed while the extraction is under way, which then completes.\<close>

definition closed_while_loading :: "event list" where
  "closed_while_loading = [SelectFile (Some report_pdf), Close, Resolve 0]"

section \<open>Evaluation on the sample sessions\<close>

lemmas handler_defs = handleFileUpload_start_def handleFileUpload_finish_def upload_failed_def
  handleSearch_def handleAction_start_def handleAction_finish_def handleSendMessage_start_def
  handleSendMessage_finish_def close_click_def zoom_out_click_def zoom_in_click_def
  zoom_reset_click_def prev_click_def next_click_def page_input_def

lemmas world_defs = run_def step_def spawn_def init_world_def init_app_def

lemmas service_defs = processDocumentAction_def chatWithDocument_def getAIClient_def falsy_def
  or_else_def trim_def js_whitespace_def EDIT_ACTIONS_def

lemmas lower_defs = toLowerCase_def lower_char_def upper_chars_def lower_chars_def

lemma show_nat_digits [simp]:
  "show_nat 1 = ''1''" "show_nat 2 = ''2''" "show_nat 3 = ''3''"
  by (simp_all add: show_nat.simps digit_char_def)

lemma report_pdf_fields [simp]:
  "file_type report_pdf = ''application/pdf''"
  "object_url report_pdf = ''blob:report''"
  "file_pdf report_pdf = Some [Some [''Q1'', ''Revenue''], Some [''Q2'', ''Revenue''], Some [''Summary'']]"
  by (simp_all add: report_pdf_def)

lemma fruit_pdf_fields [simp]:
  "file_type fruit_pdf = ''application/pdf''"
  "object_url fruit_pdf = ''blob:fruit''"
  "file_pdf fruit_pdf = Some [Some [''apple'', ''pie''], Some [''banana'', ''split''], Some [''cherry'', ''tart'']]"
  by (simp_all add: fruit_pdf_def)

lemma broken_pdf_fields [simp]:
  "file_type broken_pdf = ''application/pdf''"
  "object_url broken_pdf = ''blob:broken''"
  "file_pdf broken_pdf = None"
  by (simp_all add: broken_pdf_def)

lemma provider_fields [simp]:
  "API_KEY provider_ok = Some ''key''"
  "generateContent provider_ok r = Reply (Some ''Three quarters of revenue.'')"
  "sendMessage provider_ok q = Reply (Some ''Revenue grew.'')"
  "API_KEY provider_down = Some ''key''"
  "generateContent provider_down r = Rejected (Some ''quota exceeded'')"
  "sendMessage provider_down q = Rejected (Some ''quota exceeded'')"
  "API_KEY no_key = None"
  by (simp_all add: provider_ok_def provider_down_def no_key_def)

lemma more_provider_fields [simp]:
  "API_KEY provider_echo = Some ''key''"
  "generateContent provider_echo r = Reply (Some (g_contents r))"
  "sendMessage provider_echo q = Reply (Some (c_systemInstruction q))"
  "API_KEY provider_reply = Some ''key''"
  "generateContent provider_reply r = Reply (Some ''Three quarters of revenue.'')"
  "sendMessage provider_reply q = Reply (Some (''re: '' @ c_message q))"
  "API_KEY provider_silent = Some ''key''"
  "generateContent provider_silent r = Reply None"
  "sendMessage provider_silent q = Reply None"
  by (simp_all add: provider_echo_def provider_reply_def provider_silent_def)

lemma prompt_head_nonempty [simp]: "prompt_head \<noteq> []" "instruction_head \<noteq> []"
  by (simp_all add: prompt_head_def instruction_head_def nl_def)

lemma extract_report:
  "extractTextFromPDF report_pdf =
     Some \<lparr>fullText = join_pages [''Q1 Revenue'', ''Q2 Revenue'', ''Summary''],
           x_pageTexts = [''Q1 Revenue'', ''Q2 Revenue'', ''Summary''], x_numPages = 3\<rparr>"
  by (simp add: extractTextFromPDF_def extract_loop.simps join_pages_def Let_def)

lemma extract_fruit:
  "extractTextFromPDF fruit_pdf =
     Some \<lparr>fullText = join_pages [''apple pie'', ''banana split'', ''cherry tart''],
           x_pageTexts = [''apple pie'', ''banana split'', ''cherry tart''], x_numPages = 3\<rparr>"
  by (simp add: extractTextFromPDF_def extract_loop.simps join_pages_def Let_def)

lemma extract_broken: "extractTextFromPDF broken_pdf = None"
  by (simp add: extractTextFromPDF_def)

lemma join_pages_nonempty [simp]: "join_pages (t # ts) \<noteq> []"
  by (simp add: join_pages_def page_block_def)

lemma join_pages_Nil [simp]: "join_pages [] = []"
  by (simp add: join_pages_def)

lemma init_app_fields:
  "pageTexts (pdfState init_app) = []" "numPages (pdfState init_app) = 0"
  "text' (pdfState init_app) = []" "isProcessing (pdfState init_app) = False"
  by (simp_all add: init_app_def)

lemma report_ready_fields [simp]:
  "pdfState report_ready =
     \<lparr>file' = Some report_pdf, url = Some ''blob:report'',
      text' = join_pages [''Q1 Revenue'', ''Q2 Revenue'', ''Summary''],
      pageTexts = [''Q1 Revenue'', ''Q2 Revenue'', ''Summary''], numPages = 3,
      isProcessing = False, error = None\<rparr>"
  "activeTab report_ready = View" "chatHistory report_ready = []" "userInput report_ready = []"
  "editedContent report_ready = []" "isAiLoading report_ready = False" "zoom report_ready = 1"
  "currentPage report_ready = 1" "searchQuery report_ready = []"
  by (simp_all add: report_ready_def init_app_def)

lemma chat_ready_fields [simp]:
  "chatHistory chat_ready = []" "userInput chat_ready = ''hi''"
  by (simp_all add: chat_ready_def)


lemma fruit_ready_fields [simp]:
  "pageTexts (pdfState fruit_ready) = [''apple pie'', ''banana split'', ''cherry tart'']"
  "currentPage fruit_ready = 1"
  by (simp_all add: fruit_ready_def init_app_def)

lemma worked_state_fields [simp]:
  "pdfState worked_state = pdfState report_ready"
  "activeTab worked_state = Chat"
  "chatHistory worked_state = [\<lparr>role = User, content = ''hi''\<rparr>, \<lparr>role = Assistant, content = ''Revenue grew.''\<rparr>]"
  "editedContent worked_state = ''Three quarters of revenue.''"
  "zoom worked_state = 11 / 10" "currentPage worked_state = 2"
  by (simp_all add: worked_state_def)

lemma lower_samples:
  "toLowerCase ''BANANA'' = ''banana''"
  "toLowerCase ''kiwi'' = ''kiwi''"
  "toLowerCase ''apple pie'' = ''apple pie''"
  "toLowerCase ''banana split'' = ''banana split''"
  "toLowerCase ''cherry tart'' = ''cherry tart''"
  by (simp_all add: lower_defs)

lemma run_append: "run w (evs @ evs') = run (run w evs) evs'"
  by (simp add: run_def)

lemma load_report: "run init_world [SelectFile (Some report_pdf), Resolve 0] = \<lparr>app_of = report_ready, pending = []\<rparr>"
  by (simp add: world_defs handler_defs extract_report report_ready_def Let_def)

lemma run_viewing_page_two:
  "run init_world viewing_page_two = \<lparr>app_of = report_ready\<lparr>currentPage := 2\<rparr>, pending = []\<rparr>"
proof -
  have "run init_world viewing_page_two = step (run init_world [SelectFile (Some report_pdf), Resolve 0]) NextPage"
    by (simp add: viewing_page_two_def run_def)
  then show ?thesis
    by (simp add: load_report step_def next_click_def spawn_def)
qed

lemma run_worked_session:
  "run init_world worked_session = \<lparr>app_of = worked_state, pending = []\<rparr>"
  unfolding worked_session_def
  by (simp add: world_defs handler_defs service_defs extract_report Let_def worked_state_def
        report_ready_def)

lemma run_closed_session:
  "run init_world closed_session = \<lparr>app_of = close_click worked_state, pending = []\<rparr>"
  by (simp add: closed_session_def run_append run_worked_session)
     (simp add: run_def step_def spawn_def)

lemma run_reupload_session:
  "run init_world reupload_session =
     \<lparr>app_of = fst (handleFileUpload_start (close_click worked_state) (Some fruit_pdf)),
      pending = [UploadTask fruit_pdf]\<rparr>"
  by (simp add: reupload_session_def run_append run_worked_session)
     (simp add: run_def step_def spawn_def close_click_def handleFileUpload_start_def)

section \<open>Library functions and the extraction loop\<close>

lemma js_includes_sublist: "js_includes t q \<longleftrightarrow> sublist q t"
  by (induction t) (simp_all add: sublist_Cons_right)

lemma findIndex_bounds: "- 1 \<le> findIndex P xs \<and> findIndex P xs < int (length xs)"
  by (induction xs) (auto simp: Let_def)

lemma findIndex_none: "findIndex P xs = - 1 \<longleftrightarrow> (\<forall>x \<in> set xs. \<not> P x)"
proof (induction xs)
  case Nil
  show ?case by simp
next
  case (Cons x xs)
  have "- 1 \<le> findIndex P xs" using findIndex_bounds [of P xs] by simp
  with Cons show ?case by (auto simp: Let_def)
qed

lemma findIndex_first:
  "findIndex P xs \<noteq> - 1 \<Longrightarrow>
     P (xs ! nat (findIndex P xs)) \<and> (\<forall>j < nat (findIndex P xs). \<not> P (xs ! j))"
proof (induction xs)
  case Nil
  then show ?case by simp
next
  case (Cons x xs)
  show ?case
  proof (cases "P x")
    case True
    then show ?thesis by simp
  next
    case False
    with Cons.prems have ne: "findIndex P xs \<noteq> - 1" by (auto simp: Let_def split: if_splits)
    have lo: "0 \<le> findIndex P xs" using findIndex_bounds [of P xs] ne by linarith
    have eq: "nat (findIndex P (x # xs)) = Suc (nat (findIndex P xs))"
      using False ne lo by (simp add: Let_def nat_add_distrib)
    from Cons.IH [OF ne] have ih1: "P (xs ! nat (findIndex P xs))"
      and ih2: "\<forall>j < nat (findIndex P xs). \<not> P (xs ! j)" by simp_all
    show ?thesis
    proof (intro conjI allI impI)
      show "P ((x # xs) ! nat (findIndex P (x # xs)))" using ih1 eq by simp
    next
      fix j assume "j < nat (findIndex P (x # xs))"
      then have "j < Suc (nat (findIndex P xs))" using eq by simp
      then show "\<not> P ((x # xs) ! j)" using False ih2 by (cases j) auto
    qed
  qed
qed

lemma page_join_snoc: "page_join i (ts @ [t]) = page_join i ts @ page_block (i + length ts) t"
  by (induction ts arbitrary: i) simp_all

lemma extract_loop_join:
  "extract_loop pdf i ft pts = Some (ft', pts') \<Longrightarrow> i = Suc (length pts) \<Longrightarrow>
   i \<le> Suc (length pdf) \<Longrightarrow> ft = page_join 1 pts \<Longrightarrow>
   ft' = page_join 1 pts' \<and> length pts' = length pdf"
proof (induction pdf i ft pts rule: extract_loop.induct)
  case (1 pdf i ft pts)
  show ?case
  proof (cases "i \<le> length pdf")
    case False
    with "1.prems" show ?thesis by (auto simp: extract_loop.simps)
  next
    case True
    with "1.prems"(1) obtain items where it: "pdf ! (i - 1) = Some items"
      by (auto simp: extract_loop.simps split: option.splits)
    let ?t = "join '' '' items"
    from "1.prems"(1) True it
    have call: "extract_loop pdf (i + 1) (ft @ page_block i ?t) (pts @ [?t]) = Some (ft', pts')"
      by (simp add: extract_loop.simps Let_def)
    have "ft @ page_block i ?t = page_join 1 (pts @ [?t])"
      using "1.prems"(2,4) by (simp add: page_join_snoc)
    with "1.IH" [OF True it refl call] "1.prems"(2) True show ?thesis by simp
  qed
qed

lemma extractTextFromPDF_join:
  "extractTextFromPDF fl = Some d \<Longrightarrow>
     fullText d = join_pages (x_pageTexts d) \<and> x_numPages d = int (length (x_pageTexts d))"
  using extract_loop_join [of _ 1 "[]" "[]"]
  by (auto simp: extractTextFromPDF_def join_pages_def split: option.splits)

section \<open>Steps of the component\<close>

lemma step_Resolve:
  "step w (Resolve k) =
     (if k < length (pending w)
      then \<lparr>app_of = finish (app_of w) (pending w ! k),
            pending = take k (pending w) @ drop (Suc k) (pending w)\<rparr>
      else w)"
  by (simp add: step_def)

lemma step_other:
  "\<forall>k. ev \<noteq> Resolve k \<Longrightarrow>
     step w ev =
       (if enabled (app_of w) ev
        then \<lparr>app_of = fst (handle (app_of w) ev),
              pending = pending w @ spawn (snd (handle (app_of w) ev))\<rparr>
        else w)"
  by (cases ev) (auto simp: step_def)

lemma handle_keeps_document:
  "ev \<noteq> Close \<Longrightarrow> (\<forall>f. ev \<noteq> SelectFile f) \<Longrightarrow> pdfState (fst (handle s ev)) = pdfState s"
  by (cases ev)
     (simp_all add: handleSearch_def handleAction_start_def handleSendMessage_start_def
        zoom_out_click_def zoom_in_click_def zoom_reset_click_def prev_click_def next_click_def
        page_input_def Let_def split: option.split)

lemma finish_chat_action_keeps_document:
  "pdfState (handleAction_finish s r) = pdfState s"
  "pdfState (handleSendMessage_finish s r) = pdfState s"
  by (simp_all add: handleAction_finish_def handleSendMessage_finish_def split: sum.split)

lemma handle_doc_consistent:
  "doc_consistent (pdfState s) \<Longrightarrow> doc_consistent (pdfState (fst (handle s ev)))"
proof (cases "ev = Close \<or> (\<exists>f. ev = SelectFile f)")
  case False
  assume "doc_consistent (pdfState s)"
  with False show ?thesis by (simp add: handle_keeps_document)
next
  case True
  assume inv: "doc_consistent (pdfState s)"
  from True show ?thesis
  proof
    assume "ev = Close"
    then show ?thesis by (simp add: close_click_def doc_consistent_def)
  next
    assume "\<exists>f. ev = SelectFile f"
    then obtain f where "ev = SelectFile f" ..
    with inv show ?thesis
      by (auto simp: handleFileUpload_start_def doc_consistent_def split: option.split)
  qed
qed

lemma finish_doc_consistent:
  "doc_consistent (pdfState s) \<Longrightarrow> doc_consistent (pdfState (finish s t))"
proof (cases t)
  case (UploadTask fl)
  assume inv: "doc_consistent (pdfState s)"
  show ?thesis
  proof (cases "extractTextFromPDF fl")
    case None
    with inv UploadTask show ?thesis
      by (auto simp: handleFileUpload_finish_def upload_failed_def doc_consistent_def Let_def
               split: option.split)
  next
    case (Some d)
    then obtain pdf where "file_pdf fl = Some pdf"
      by (auto simp: extractTextFromPDF_def split: option.splits)
    with Some UploadTask extractTextFromPDF_join [OF Some] show ?thesis
      by (simp add: handleFileUpload_finish_def doc_consistent_def Let_def)
  qed
next
  case (ActionTask r)
  assume "doc_consistent (pdfState s)"
  with ActionTask show ?thesis by (simp add: finish_chat_action_keeps_document)
next
  case (ChatTask r)
  assume "doc_consistent (pdfState s)"
  with ChatTask show ?thesis by (simp add: finish_chat_action_keeps_document)
qed

lemma step_doc_consistent:
  "doc_consistent (pdfState (app_of w)) \<Longrightarrow> doc_consistent (pdfState (app_of (step w ev)))"
proof (cases "\<exists>k. ev = Resolve k")
  case True
  assume "doc_consistent (pdfState (app_of w))"
  with True show ?thesis by (auto simp: step_Resolve finish_doc_consistent)
next
  case False
  assume "doc_consistent (pdfState (app_of w))"
  with False show ?thesis by (simp add: step_other handle_doc_consistent)
qed

lemma run_doc_consistent:
  "doc_consistent (pdfState (app_of w)) \<Longrightarrow> doc_consistent (pdfState (app_of (run w evs)))"
  unfolding run_def by (induction evs arbitrary: w) (simp_all add: step_doc_consistent)

lemma init_doc_consistent: "doc_consistent (pdfState (app_of init_world))"
  by (simp add: init_world_def init_app_def doc_consistent_def)

lemma handle_transcript_grows:
  "prefix (chatHistory s) (chatHistory (fst (handle s ev)))"
  by (cases ev)
     (simp_all add: handler_defs Let_def split: option.split)

lemma finish_transcript_grows:
  "prefix (chatHistory s) (chatHistory (finish s t))"
  by (cases t)
     (simp_all add: handleFileUpload_finish_def upload_failed_def handleAction_finish_def
        handleSendMessage_finish_def Let_def split: option.split sum.split)

lemma step_transcript_grows:
  "prefix (chatHistory (app_of w)) (chatHistory (app_of (step w ev)))"
proof (cases "\<exists>k. ev = Resolve k")
  case True
  then show ?thesis by (auto simp: step_Resolve finish_transcript_grows)
next
  case False
  then show ?thesis by (simp add: step_other handle_transcript_grows)
qed

lemma run_transcript_grows:
  "prefix (chatHistory (app_of w)) (chatHistory (app_of (run w evs)))"
  unfolding run_def
proof (induction evs arbitrary: w)
  case Nil
  show ?case by simp
next
  case (Cons ev evs)
  have "prefix (chatHistory (app_of w)) (chatHistory (app_of (step w ev)))"
    by (rule step_transcript_grows)
  also have "prefix \<dots> (chatHistory (app_of (foldl step (step w ev) evs)))"
    by (rule Cons.IH)
  finally show ?case by simp
qed

section \<open>Sessions that close only when settled\<close>

lemma filter_remove_nth:
  "k < length xs \<Longrightarrow>
     filter P xs = filter P (take k xs) @ (if P (xs ! k) then [xs ! k] else [])
                   @ filter P (drop (Suc k) xs)"
proof -
  assume "k < length xs"
  then have "xs = take k xs @ xs ! k # drop (Suc k) xs" by (rule id_take_nth_drop)
  then have "filter P xs = filter P (take k xs @ xs ! k # drop (Suc k) xs)" by simp
  then show ?thesis by simp
qed

lemma handle_spawns_upload:
  "upload_pending t \<Longrightarrow> snd (handle s ev) = Some t \<Longrightarrow>
     (\<exists>fl. ev = SelectFile (Some fl) \<and> file_type fl = ''application/pdf'')"
  by (cases ev)
     (auto simp: handleFileUpload_start_def handleAction_start_def handleSendMessage_start_def
           Let_def split: option.splits if_splits)

lemma settled_select:
  assumes "settled w" and "enabled (app_of w) (SelectFile f)"
  shows "settled \<lparr>app_of = fst (handle (app_of w) (SelectFile f)),
                  pending = pending w @ spawn (snd (handle (app_of w) (SelectFile f)))\<rparr>"
proof -
  from assms(2) have empty: "file' (pdfState (app_of w)) = None" by simp
  then have st: "status_of (pdfState (app_of w)) = Empty" by (simp add: status_of_def)
  with assms(1) have none: "filter upload_pending (pending w) = []"
    by (auto simp: settled_def)
  from assms(1) st have data: "pageTexts (pdfState (app_of w)) = []"
    "numPages (pdfState (app_of w)) = 0" "text' (pdfState (app_of w)) = []"
    by (auto simp: settled_def)
  from assms(1) empty have idle: "\<not> isProcessing (pdfState (app_of w))"
    by (auto simp: settled_def)
  show ?thesis
    using empty none data idle
    by (auto simp: settled_def handleFileUpload_start_def spawn_def status_of_def
             split: option.splits)
qed

lemma settled_close:
  assumes "settled w" and "status_of (pdfState (app_of w)) \<noteq> Loading"
  shows "settled \<lparr>app_of = fst (handle (app_of w) Close),
                  pending = pending w @ spawn (snd (handle (app_of w) Close))\<rparr>"
proof -
  from assms have "filter upload_pending (pending w) = []" by (auto simp: settled_def)
  then show ?thesis
    by (simp add: settled_def close_click_def spawn_def status_of_def)
qed

lemma settled_other:
  assumes "settled w" and "ev \<noteq> Close" and "\<forall>f. ev \<noteq> SelectFile f"
  shows "settled \<lparr>app_of = fst (handle (app_of w) ev),
                  pending = pending w @ spawn (snd (handle (app_of w) ev))\<rparr>"
proof -
  have doc: "pdfState (fst (handle (app_of w) ev)) = pdfState (app_of w)"
    using assms(2,3) by (simp add: handle_keeps_document)
  have "filter upload_pending (spawn (snd (handle (app_of w) ev))) = []"
  proof (cases "snd (handle (app_of w) ev)")
    case None
    then show ?thesis by (simp add: spawn_def)
  next
    case (Some t)
    with handle_spawns_upload [of t "app_of w" ev] assms(3) have "\<not> upload_pending t" by auto
    with Some show ?thesis by (simp add: spawn_def)
  qed
  with assms(1) doc show ?thesis by (simp add: settled_def)
qed

lemma settled_resolve:
  assumes "settled w" and "k < length (pending w)"
  shows "settled \<lparr>app_of = finish (app_of w) (pending w ! k),
                  pending = take k (pending w) @ drop (Suc k) (pending w)\<rparr>"
proof (cases "upload_pending (pending w ! k)")
  case False
  then have doc: "pdfState (finish (app_of w) (pending w ! k)) = pdfState (app_of w)"
    by (cases "pending w ! k") (simp_all add: finish_chat_action_keeps_document)
  from False filter_remove_nth [OF assms(2), of upload_pending]
  have "filter upload_pending (take k (pending w) @ drop (Suc k) (pending w))
          = filter upload_pending (pending w)" by simp
  with assms(1) doc show ?thesis by (simp add: settled_def)
next
  case True
  then obtain fl where t: "pending w ! k = UploadTask fl" by (cases "pending w ! k") simp_all
  from True filter_remove_nth [OF assms(2), of upload_pending]
  have split: "filter upload_pending (pending w)
      = filter upload_pending (take k (pending w)) @ [pending w ! k]
        @ filter upload_pending (drop (Suc k) (pending w))" by simp
  then have ne: "filter upload_pending (pending w) \<noteq> []" by simp
  with assms(1) have loading: "status_of (pdfState (app_of w)) = Loading"
    and one: "length (filter upload_pending (pending w)) = 1"
    by (auto simp: settled_def)
  from split one
  have "filter upload_pending (take k (pending w)) = []
      \<and> filter upload_pending (drop (Suc k) (pending w)) = []" by simp
  then have rest: "filter upload_pending (take k (pending w) @ drop (Suc k) (pending w)) = []"
    by simp
  from loading have lp: "isProcessing (pdfState (app_of w))" "file' (pdfState (app_of w)) \<noteq> None"
    by (auto simp: status_of_def split: if_splits)
  with assms(1) have err: "error (pdfState (app_of w)) = None" by (auto simp: settled_def)
  from assms(1) loading have data: "pageTexts (pdfState (app_of w)) = []"
    "numPages (pdfState (app_of w)) = 0" "text' (pdfState (app_of w)) = []"
    by (auto simp: settled_def)
  show ?thesis
    using t rest lp err data
    by (auto simp: settled_def handleFileUpload_finish_def upload_failed_def status_of_def Let_def
             split: option.splits)
qed

lemma settled_step:
  assumes "settled w" and "ev = Close \<longrightarrow> status_of (pdfState (app_of w)) \<noteq> Loading"
  shows "settled (step w ev)"
proof (cases "\<exists>k. ev = Resolve k")
  case True
  with assms(1) show ?thesis by (auto simp: step_Resolve settled_resolve)
next
  case False
  show ?thesis
  proof (cases "enabled (app_of w) ev")
    case off: False
    with False assms(1) show ?thesis by (simp add: step_other)
  next
    case on: True
    have "settled \<lparr>app_of = fst (handle (app_of w) ev),
                  pending = pending w @ spawn (snd (handle (app_of w) ev))\<rparr>"
    proof (cases "ev = Close")
      case True
      with assms(2) have "status_of (pdfState (app_of w)) \<noteq> Loading" by simp
      from settled_close [OF assms(1) this] True show ?thesis by simp
    next
      case nc: False
      show ?thesis
      proof (cases "\<exists>f. ev = SelectFile f")
        case True
        then obtain f where "ev = SelectFile f" ..
        with settled_select [OF assms(1), of f] on show ?thesis by simp
      next
        case False
        with settled_other [OF assms(1) nc] show ?thesis by simp
      qed
    qed
    with False on show ?thesis by (simp add: step_other)
  qed
qed

lemma settled_run:
  "settled w \<Longrightarrow> settled_closes w evs \<Longrightarrow> settled (run w evs)"
proof (induction evs arbitrary: w)
  case Nil
  then show ?case by (simp add: run_def)
next
  case (Cons ev evs)
  have cl: "ev = Close \<longrightarrow> status_of (pdfState (app_of w)) \<noteq> Loading"
    using Cons.prems(2) by auto
  have rest: "settled_closes (step w ev) evs"
    using Cons.prems(2) by (cases ev) simp_all
  have "settled (step w ev)" using Cons.prems(1) cl by (rule settled_step)
  from Cons.IH [OF this rest] show ?case by (simp add: run_def)
qed

lemma settled_init: "settled init_world"
  by (simp add: settled_def init_world_def init_app_def status_of_def)

section \<open>Selecting a new file\<close>

text \<open>
  Claim C1, as the code has it. Selecting a PDF file replaces the document state at once
  (no text, no pages, processing) and starts the extraction; the page number, the zoom
  factor, the draft and the transcript are left as they were. When the extraction
  succeeds the page number becomes 1; the zoom factor, the draft and the transcript
  stay as they are also then, and a failed extraction leaves the page number too.
\<close>

theorem upload_resets_document_state_only:
  assumes "file_type fl = ''application/pdf''"
  shows "handleFileUpload_start s (Some fl)
           = (s\<lparr>pdfState := \<lparr>file' = Some fl, url = Some (object_url fl), text' = [],
                               pageTexts = [], numPages = 0, isProcessing = True,
                               error = None\<rparr>\<rparr>,
              Some (UploadTask fl))
     \<and> currentPage (fst (handleFileUpload_start s (Some fl))) = currentPage s
     \<and> zoom (fst (handleFileUpload_start s (Some fl))) = zoom s
     \<and> editedContent (fst (handleFileUpload_start s (Some fl))) = editedContent s
     \<and> chatHistory (fst (handleFileUpload_start s (Some fl))) = chatHistory s
     \<and> zoom (handleFileUpload_finish s2 fl) = zoom s2
     \<and> editedContent (handleFileUpload_finish s2 fl) = editedContent s2
     \<and> chatHistory (handleFileUpload_finish s2 fl) = chatHistory s2
     \<and> (extractTextFromPDF fl \<noteq> None \<longrightarrow> currentPage (handleFileUpload_finish s2 fl) = 1)
     \<and> (extractTextFromPDF fl = None \<longrightarrow>
          currentPage (handleFileUpload_finish s2 fl) = currentPage s2)"
proof -
  have start: "handleFileUpload_start s (Some fl)
           = (s\<lparr>pdfState := \<lparr>file' = Some fl, url = Some (object_url fl), text' = [],
                               pageTexts = [], numPages = 0, isProcessing = True,
                               error = None\<rparr>\<rparr>,
              Some (UploadTask fl))"
    using assms by (simp add: handleFileUpload_start_def)
  have keep: "zoom (handleFileUpload_finish s2 fl) = zoom s2
     \<and> editedContent (handleFileUpload_finish s2 fl) = editedContent s2
     \<and> chatHistory (handleFileUpload_finish s2 fl) = chatHistory s2"
    by (simp add: handleFileUpload_finish_def upload_failed_def Let_def split: option.split)
  have ok: "extractTextFromPDF fl \<noteq> None \<longrightarrow> currentPage (handleFileUpload_finish s2 fl) = 1"
    by (auto simp: handleFileUpload_finish_def extractTextFromPDF_def Let_def
             split: option.splits)
  have bad: "extractTextFromPDF fl = None \<longrightarrow>
          currentPage (handleFileUpload_finish s2 fl) = currentPage s2"
    by (auto simp: handleFileUpload_finish_def upload_failed_def Let_def split: option.splits)
  from keep ok bad show ?thesis by (simp add: start)
qed

theorem upload_resets_witness:
  "file_type fruit_pdf = ''application/pdf'' \<and> extractTextFromPDF fruit_pdf \<noteq> None
   \<and> file_type broken_pdf = ''application/pdf'' \<and> extractTextFromPDF broken_pdf = None
   \<and> pdfState (fst (handleFileUpload_start (close_click worked_state) (Some fruit_pdf)))
       = \<lparr>file' = Some fruit_pdf, url = Some ''blob:fruit'', text' = [], pageTexts = [],
          numPages = 0, isProcessing = True, error = None\<rparr>
   \<and> currentPage (fst (handleFileUpload_start (close_click worked_state) (Some fruit_pdf))) = 2
   \<and> zoom (fst (handleFileUpload_start (close_click worked_state) (Some fruit_pdf))) = 11 / 10
   \<and> currentPage (handleFileUpload_finish
         (fst (handleFileUpload_start (close_click worked_state) (Some fruit_pdf))) fruit_pdf) = 1
   \<and> zoom (handleFileUpload_finish
         (fst (handleFileUpload_start (close_click worked_state) (Some fruit_pdf))) fruit_pdf) = 11 / 10
   \<and> currentPage (handleFileUpload_finish worked_state broken_pdf) = 2"
proof -
  have h: "file_type fruit_pdf = ''application/pdf''" by simp
  have e: "extractTextFromPDF fruit_pdf \<noteq> None" by (simp add: extract_fruit)
  have h': "file_type broken_pdf = ''application/pdf''" by simp
  have e': "extractTextFromPDF broken_pdf = None" by (rule extract_broken)
  from upload_resets_document_state_only [OF h, of "close_click worked_state"
         "fst (handleFileUpload_start (close_click worked_state) (Some fruit_pdf))"] h e
  have a: "pdfState (fst (handleFileUpload_start (close_click worked_state) (Some fruit_pdf)))
       = \<lparr>file' = Some fruit_pdf, url = Some ''blob:fruit'', text' = [], pageTexts = [],
          numPages = 0, isProcessing = True, error = None\<rparr>
   \<and> currentPage (fst (handleFileUpload_start (close_click worked_state) (Some fruit_pdf))) = 2
   \<and> zoom (fst (handleFileUpload_start (close_click worked_state) (Some fruit_pdf))) = 11 / 10
   \<and> currentPage (handleFileUpload_finish
         (fst (handleFileUpload_start (close_click worked_state) (Some fruit_pdf))) fruit_pdf) = 1
   \<and> zoom (handleFileUpload_finish
         (fst (handleFileUpload_start (close_click worked_state) (Some fruit_pdf))) fruit_pdf) = 11 / 10"
    by (elim conjE) (simp add: close_click_def)
  from upload_resets_document_state_only [OF h', of worked_state worked_state] e'
  have b: "currentPage (handleFileUpload_finish worked_state broken_pdf) = 2"
    by (elim conjE) simp
  from h e h' e' a b show ?thesis by blast
qed

text \<open>
  The claim as stated fails: after \<open>worked_session\<close> the workspace is closed and another PDF
  selected; while that file is loading the page number is still 2, the zoom factor is
  not 1, and the draft and the transcript of the earlier document are still held.
\<close>

theorem upload_keeps_view_and_drafts_counterexample:
  "status_of (pdfState (app_of (run init_world reupload_session))) = Loading
   \<and> currentPage (app_of (run init_world reupload_session)) = 2
   \<and> zoom (app_of (run init_world reupload_session)) \<noteq> 1
   \<and> editedContent (app_of (run init_world reupload_session)) = ''Three quarters of revenue.''
   \<and> chatHistory (app_of (run init_world reupload_session))
       = [\<lparr>role = User, content = ''hi''\<rparr>, \<lparr>role = Assistant, content = ''Revenue grew.''\<rparr>]"
  by (simp add: run_reupload_session handleFileUpload_start_def close_click_def status_of_def)

section \<open>A transform call that fails\<close>

text \<open>
  Claim C2, as the code has it. A transform call never touches the document state, so the
  session status is as before. The draft is as before when the client cannot be made
  (no API key); when the provider rejects the request, the draft is overwritten by
  \<open>Error: \<close> and the message of the rejection.
\<close>

theorem transform_failure_keeps_document_state:
  assumes "text' (pdfState s) \<noteq> []"
  shows "\<exists>s1 r.
     handleAction_start s env action = (s1, Some (ActionTask r))
     \<and> pdfState s1 = pdfState s \<and> editedContent s1 = editedContent s
     \<and> (\<forall>s2. pdfState (handleAction_finish s2 r) = pdfState s2)
     \<and> status_of (pdfState (handleAction_finish s1 r)) = status_of (pdfState s)
     \<and> (falsy (API_KEY env) \<longrightarrow>
          (\<forall>s2. editedContent (handleAction_finish s2 r) = editedContent s2))
     \<and> (\<not> falsy (API_KEY env) \<longrightarrow>
          (\<forall>m. generateContent env (action_request (text' (pdfState s)) (prompt action) [])
                 = Rejected m \<longrightarrow>
               (\<forall>s2. editedContent (handleAction_finish s2 r)
                       = ''Error: '' @ or_else m ''Failed to communicate with AI'')))"
proof -
  let ?r = "processDocumentAction env (text' (pdfState s)) (prompt action) []"
  let ?s1 = "s\<lparr>isAiLoading := True, activeTab := Edit\<rparr>"
  have start: "handleAction_start s env action = (?s1, Some (ActionTask ?r))"
    using assms by (simp add: handleAction_start_def)
  have doc: "\<forall>s2. pdfState (handleAction_finish s2 ?r) = pdfState s2"
    by (simp add: finish_chat_action_keeps_document)
  have nokey: "falsy (API_KEY env) \<longrightarrow>
          (\<forall>s2. editedContent (handleAction_finish s2 ?r) = editedContent s2)"
    by (simp add: processDocumentAction_def getAIClient_def handleAction_finish_def)
  have rej: "\<not> falsy (API_KEY env) \<longrightarrow>
          (\<forall>m. generateContent env (action_request (text' (pdfState s)) (prompt action) [])
                 = Rejected m \<longrightarrow>
               (\<forall>s2. editedContent (handleAction_finish s2 ?r)
                       = ''Error: '' @ or_else m ''Failed to communicate with AI''))"
    by (simp add: processDocumentAction_def getAIClient_def handleAction_finish_def)
  have st: "status_of (pdfState (handleAction_finish ?s1 ?r)) = status_of (pdfState s)"
    by (simp add: finish_chat_action_keeps_document)
  from start doc st nokey rej show ?thesis by simp
qed

theorem transform_failure_witness:
  "text' (pdfState worked_state) \<noteq> [] \<and> falsy (API_KEY no_key)
   \<and> \<not> falsy (API_KEY provider_down)
   \<and> (\<exists>s1 r. handleAction_start worked_state no_key (EDIT_ACTIONS ! 0) = (s1, Some (ActionTask r))
         \<and> editedContent (handleAction_finish s1 r) = ''Three quarters of revenue.''
         \<and> pdfState (handleAction_finish s1 r) = pdfState worked_state)
   \<and> (\<exists>s1 r. handleAction_start worked_state provider_down (EDIT_ACTIONS ! 0)
                 = (s1, Some (ActionTask r))
         \<and> editedContent (handleAction_finish s1 r) = ''Error: quota exceeded''
         \<and> pdfState (handleAction_finish s1 r) = pdfState worked_state)"
proof -
  have h: "text' (pdfState worked_state) \<noteq> []" by simp
  have k1: "falsy (API_KEY no_key)" and k2: "\<not> falsy (API_KEY provider_down)"
    by (simp_all add: falsy_def)
  from transform_failure_keeps_document_state [OF h, of no_key "EDIT_ACTIONS ! 0"] k1
  have a: "\<exists>s1 r. handleAction_start worked_state no_key (EDIT_ACTIONS ! 0)
                 = (s1, Some (ActionTask r))
         \<and> editedContent (handleAction_finish s1 r) = ''Three quarters of revenue.''
         \<and> pdfState (handleAction_finish s1 r) = pdfState worked_state"
    by (elim exE conjE) (simp del: worked_state_fields(1) add: worked_state_fields(4))
  from transform_failure_keeps_document_state [OF h, of provider_down "EDIT_ACTIONS ! 0"] k2
  have b: "\<exists>s1 r. handleAction_start worked_state provider_down (EDIT_ACTIONS ! 0)
                 = (s1, Some (ActionTask r))
         \<and> editedContent (handleAction_finish s1 r) = ''Error: quota exceeded''
         \<and> pdfState (handleAction_finish s1 r) = pdfState worked_state"
    by (elim exE conjE) (simp del: worked_state_fields(1) add: or_else_def)
  from h k1 k2 a b show ?thesis by blast
qed

text \<open>
  The claim as stated fails: with a summary in the draft, a second action whose request
  the provider rejects leaves the session ready and replaces the draft by the error text.
\<close>

theorem transform_failure_overwrites_draft_counterexample:
  "status_of (pdfState (app_of (run init_world summarised_session))) = Ready
   \<and> editedContent (app_of (run init_world summarised_session)) = ''Three quarters of revenue.''
   \<and> status_of (pdfState (app_of (run init_world failed_transform_session))) = Ready
   \<and> editedContent (app_of (run init_world failed_transform_session)) = ''Error: quota exceeded''"
  unfolding failed_transform_session_def summarised_session_def
  by (simp add: world_defs handler_defs service_defs extract_report Let_def status_of_def)

section \<open>Page navigation\<close>

text \<open>
  Claim C3, as the code has it. The number field sets the page to \<open>p\<close> when \<open>p\<close> lies
  between 1 and the page count and leaves the state alone otherwise (also when the
  field holds no number); the two buttons move one page and stop at 1 and at the page
  count.
\<close>

theorem page_input_accepts_valid_pages_only:
  "(1 \<le> p \<and> p \<le> numPages (pdfState s) \<longrightarrow> currentPage (page_input s (Some p)) = p)
   \<and> (p < 1 \<or> numPages (pdfState s) < p \<longrightarrow> page_input s (Some p) = s)
   \<and> page_input s None = s
   \<and> currentPage (prev_click s) = max 1 (currentPage s - 1)
   \<and> currentPage (next_click s) = min (numPages (pdfState s)) (currentPage s + 1)
   \<and> (1 \<le> currentPage s \<and> currentPage s \<le> numPages (pdfState s) \<longrightarrow>
        1 \<le> currentPage (prev_click s) \<and> currentPage (prev_click s) \<le> numPages (pdfState s)
        \<and> 1 \<le> currentPage (next_click s) \<and> currentPage (next_click s) \<le> numPages (pdfState s))"
  by (auto simp: page_input_def prev_click_def next_click_def)

theorem page_input_witness:
  "currentPage (page_input (report_ready\<lparr>currentPage := 2\<rparr>) (Some 3)) = 3
   \<and> page_input (report_ready\<lparr>currentPage := 2\<rparr>) (Some 7) = report_ready\<lparr>currentPage := 2\<rparr>
   \<and> page_input (report_ready\<lparr>currentPage := 2\<rparr>) (Some 0) = report_ready\<lparr>currentPage := 2\<rparr>
   \<and> currentPage (prev_click (report_ready\<lparr>currentPage := 2\<rparr>)) = 1
   \<and> currentPage (next_click (report_ready\<lparr>currentPage := 2\<rparr>)) = 3"
  using page_input_accepts_valid_pages_only [of 3 "report_ready\<lparr>currentPage := 2\<rparr>"]
        page_input_accepts_valid_pages_only [of 7 "report_ready\<lparr>currentPage := 2\<rparr>"]
        page_input_accepts_valid_pages_only [of 0 "report_ready\<lparr>currentPage := 2\<rparr>"]
  by simp

text \<open>
  The claim as stated fails: on page 2 of a three-page document the number 7 is entered;
  the page stays 2 and does not become 3.
\<close>

theorem page_input_out_of_range_counterexample:
  "status_of (pdfState (app_of (run init_world viewing_page_two))) = Ready
   \<and> numPages (pdfState (app_of (run init_world viewing_page_two))) = 3
   \<and> currentPage (app_of (run init_world viewing_page_two)) = 2
   \<and> enabled (app_of (run init_world viewing_page_two)) (PageInput (Some 7))
   \<and> currentPage (app_of (step (run init_world viewing_page_two) (PageInput (Some 7)))) = 2"
  by (simp add: run_viewing_page_two status_of_def step_def page_input_def)

section \<open>One chat turn\<close>




section \<open>Page texts and full text\<close>

text \<open>
  Claim C5, as the code has it. In every state the component can reach, there is one page
  text per page and the full text is the join of the page texts with their page markers;
  this holds in particular for what a successful extraction stores. While a file is
  loading, and after a close, nothing is held. In a session that is not ready nothing
  is held either, as long as the workspace was never closed while a file was loading.
\<close>

theorem document_state_is_consistent:
  "numPages (pdfState (app_of (run init_world evs)))
     = int (length (pageTexts (pdfState (app_of (run init_world evs)))))
   \<and> text' (pdfState (app_of (run init_world evs)))
       = join_pages (pageTexts (pdfState (app_of (run init_world evs))))
   \<and> (status_of (pdfState (app_of (run init_world evs))) = Loading \<longrightarrow>
        pageTexts (pdfState (app_of (run init_world evs))) = []
        \<and> numPages (pdfState (app_of (run init_world evs))) = 0
        \<and> text' (pdfState (app_of (run init_world evs))) = [])
   \<and> (extractTextFromPDF fl = Some d \<longrightarrow>
        pageTexts (pdfState (handleFileUpload_finish s fl)) = x_pageTexts d
        \<and> numPages (pdfState (handleFileUpload_finish s fl)) = x_numPages d
        \<and> text' (pdfState (handleFileUpload_finish s fl)) = fullText d
        \<and> fullText d = join_pages (x_pageTexts d)
        \<and> x_numPages d = int (length (x_pageTexts d)))
   \<and> pageTexts (pdfState (close_click s)) = [] \<and> numPages (pdfState (close_click s)) = 0
   \<and> text' (pdfState (close_click s)) = []
   \<and> (settled_closes init_world evs
        \<and> status_of (pdfState (app_of (run init_world evs))) \<noteq> Ready \<longrightarrow>
        pageTexts (pdfState (app_of (run init_world evs))) = []
        \<and> numPages (pdfState (app_of (run init_world evs))) = 0
        \<and> text' (pdfState (app_of (run init_world evs))) = [])"
proof -
  have quiet: "settled_closes init_world evs
        \<and> status_of (pdfState (app_of (run init_world evs))) \<noteq> Ready \<longrightarrow>
        pageTexts (pdfState (app_of (run init_world evs))) = []
        \<and> numPages (pdfState (app_of (run init_world evs))) = 0
        \<and> text' (pdfState (app_of (run init_world evs))) = []"
  proof
    assume a: "settled_closes init_world evs
        \<and> status_of (pdfState (app_of (run init_world evs))) \<noteq> Ready"
    then have "settled (run init_world evs)" by (simp add: settled_run settled_init)
    with a show "pageTexts (pdfState (app_of (run init_world evs))) = []
        \<and> numPages (pdfState (app_of (run init_world evs))) = 0
        \<and> text' (pdfState (app_of (run init_world evs))) = []"
      by (simp add: settled_def)
  qed
  have inv: "doc_consistent (pdfState (app_of (run init_world evs)))"
    by (rule run_doc_consistent [OF init_doc_consistent])
  have loaded: "extractTextFromPDF fl = Some d \<longrightarrow>
        pageTexts (pdfState (handleFileUpload_finish s fl)) = x_pageTexts d
        \<and> numPages (pdfState (handleFileUpload_finish s fl)) = x_numPages d
        \<and> text' (pdfState (handleFileUpload_finish s fl)) = fullText d
        \<and> fullText d = join_pages (x_pageTexts d)
        \<and> x_numPages d = int (length (x_pageTexts d))"
  proof
    assume ex: "extractTextFromPDF fl = Some d"
    then obtain pdf where "file_pdf fl = Some pdf"
      by (auto simp: extractTextFromPDF_def split: option.splits)
    with ex extractTextFromPDF_join [OF ex]
    show "pageTexts (pdfState (handleFileUpload_finish s fl)) = x_pageTexts d
        \<and> numPages (pdfState (handleFileUpload_finish s fl)) = x_numPages d
        \<and> text' (pdfState (handleFileUpload_finish s fl)) = fullText d
        \<and> fullText d = join_pages (x_pageTexts d)
        \<and> x_numPages d = int (length (x_pageTexts d))"
      by (simp add: handleFileUpload_finish_def Let_def)
  qed
  have closed: "pageTexts (pdfState (close_click s)) = [] \<and> numPages (pdfState (close_click s)) = 0
     \<and> text' (pdfState (close_click s)) = []"
    by (simp add: close_click_def)
  from inv have "numPages (pdfState (app_of (run init_world evs)))
     = int (length (pageTexts (pdfState (app_of (run init_world evs)))))
   \<and> text' (pdfState (app_of (run init_world evs)))
       = join_pages (pageTexts (pdfState (app_of (run init_world evs))))
   \<and> (status_of (pdfState (app_of (run init_world evs))) = Loading \<longrightarrow>
        pageTexts (pdfState (app_of (run init_world evs))) = []
        \<and> numPages (pdfState (app_of (run init_world evs))) = 0
        \<and> text' (pdfState (app_of (run init_world evs))) = [])"
    by (auto simp: doc_consistent_def status_of_def split: if_splits)
  with loaded closed quiet show ?thesis by blast
qed

theorem document_state_witness:
  "status_of (pdfState (app_of (run init_world [SelectFile (Some report_pdf)]))) = Loading
   \<and> pageTexts (pdfState (app_of (run init_world [SelectFile (Some report_pdf)]))) = []
   \<and> numPages (pdfState (app_of (run init_world [SelectFile (Some report_pdf)]))) = 0
   \<and> extractTextFromPDF report_pdf
       = Some \<lparr>fullText = join_pages [''Q1 Revenue'', ''Q2 Revenue'', ''Summary''],
               x_pageTexts = [''Q1 Revenue'', ''Q2 Revenue'', ''Summary''], x_numPages = 3\<rparr>
   \<and> pageTexts (pdfState (handleFileUpload_finish
                  (app_of (run init_world [SelectFile (Some report_pdf)])) report_pdf))
       = [''Q1 Revenue'', ''Q2 Revenue'', ''Summary'']
   \<and> numPages (pdfState (handleFileUpload_finish
                  (app_of (run init_world [SelectFile (Some report_pdf)])) report_pdf)) = 3
   \<and> text' (pdfState (handleFileUpload_finish
                  (app_of (run init_world [SelectFile (Some report_pdf)])) report_pdf))
       = join_pages [''Q1 Revenue'', ''Q2 Revenue'', ''Summary'']
   \<and> settled_closes init_world failed_load_session
   \<and> status_of (pdfState (app_of (run init_world failed_load_session))) = Failed
   \<and> pageTexts (pdfState (app_of (run init_world failed_load_session))) = []
   \<and> numPages (pdfState (app_of (run init_world failed_load_session))) = 0"
proof -
  have l: "status_of (pdfState (app_of (run init_world [SelectFile (Some report_pdf)]))) = Loading"
    by (simp add: world_defs handleFileUpload_start_def status_of_def)
  from document_state_is_consistent [of "[SelectFile (Some report_pdf)]" report_pdf
         "\<lparr>fullText = join_pages [''Q1 Revenue'', ''Q2 Revenue'', ''Summary''],
           x_pageTexts = [''Q1 Revenue'', ''Q2 Revenue'', ''Summary''], x_numPages = 3\<rparr>"
         "app_of (run init_world [SelectFile (Some report_pdf)])"] l extract_report
  have a: "pageTexts (pdfState (app_of (run init_world [SelectFile (Some report_pdf)]))) = []
   \<and> numPages (pdfState (app_of (run init_world [SelectFile (Some report_pdf)]))) = 0
   \<and> pageTexts (pdfState (handleFileUpload_finish
                  (app_of (run init_world [SelectFile (Some report_pdf)])) report_pdf))
       = [''Q1 Revenue'', ''Q2 Revenue'', ''Summary'']
   \<and> numPages (pdfState (handleFileUpload_finish
                  (app_of (run init_world [SelectFile (Some report_pdf)])) report_pdf)) = 3
   \<and> text' (pdfState (handleFileUpload_finish
                  (app_of (run init_world [SelectFile (Some report_pdf)])) report_pdf))
       = join_pages [''Q1 Revenue'', ''Q2 Revenue'', ''Summary'']"
    by (elim conjE) simp
  have q: "settled_closes init_world failed_load_session"
    by (simp add: failed_load_session_def)
  have f: "status_of (pdfState (app_of (run init_world failed_load_session))) = Failed"
    unfolding failed_load_session_def
    by (simp add: world_defs handler_defs Let_def status_of_def)
  from document_state_is_consistent [of failed_load_session broken_pdf
         "\<lparr>fullText = [], x_pageTexts = [], x_numPages = 0\<rparr>" init_app] q f
  have b: "pageTexts (pdfState (app_of (run init_world failed_load_session))) = []
   \<and> numPages (pdfState (app_of (run init_world failed_load_session))) = 0"
    by (elim conjE) simp
  from l extract_report a q f b show ?thesis by blast
qed

text \<open>
  The claim as stated fails: the workspace is closed while \<open>report_pdf\<close> is loading, and
  the extraction completes afterwards; the session is empty and holds three page texts.
\<close>

theorem stale_extraction_counterexample:
  "status_of (pdfState (app_of (run init_world closed_while_loading))) = Empty
   \<and> pageTexts (pdfState (app_of (run init_world closed_while_loading)))
       = [''Q1 Revenue'', ''Q2 Revenue'', ''Summary'']
   \<and> numPages (pdfState (app_of (run init_world closed_while_loading))) = 3"
  unfolding closed_while_loading_def
  by (simp add: world_defs handler_defs extract_report Let_def status_of_def)

section \<open>Searching the page texts\<close>

text \<open>
  Claim C6, as the code has it. A query that is blank after trimming changes nothing. For
  any other query the pages are compared in order, in lower case on both sides: when
  some page contains the query, the page number becomes that of the first such page,
  and when none does the state is as before.
\<close>

theorem search_goes_to_first_matching_page:
  "(trim (searchQuery s) = [] \<longrightarrow> handleSearch s = s)
   \<and> (trim (searchQuery s) \<noteq> [] \<longrightarrow>
        (\<exists>k. k < length (pageTexts (pdfState s))
            \<and> sublist (toLowerCase (searchQuery s)) (toLowerCase (pageTexts (pdfState s) ! k))
            \<and> (\<forall>j<k. \<not> sublist (toLowerCase (searchQuery s))
                                 (toLowerCase (pageTexts (pdfState s) ! j)))
            \<and> handleSearch s = s\<lparr>currentPage := int k + 1\<rparr>)
        \<or> ((\<forall>t \<in> set (pageTexts (pdfState s)).
               \<not> sublist (toLowerCase (searchQuery s)) (toLowerCase t))
            \<and> handleSearch s = s))"
proof (intro conjI impI)
  assume "trim (searchQuery s) = []"
  then show "handleSearch s = s" by (simp add: handleSearch_def)
next
  assume nb: "trim (searchQuery s) \<noteq> []"
  let ?q = "toLowerCase (searchQuery s)"
  let ?P = "\<lambda>t. js_includes (toLowerCase t) ?q"
  let ?pts = "pageTexts (pdfState s)"
  let ?r = "findIndex ?P ?pts"
  show "(\<exists>k. k < length ?pts \<and> sublist ?q (toLowerCase (?pts ! k))
            \<and> (\<forall>j<k. \<not> sublist ?q (toLowerCase (?pts ! j)))
            \<and> handleSearch s = s\<lparr>currentPage := int k + 1\<rparr>)
        \<or> ((\<forall>t \<in> set ?pts. \<not> sublist ?q (toLowerCase t)) \<and> handleSearch s = s)"
  proof (cases "?r = - 1")
    case True
    then have "\<forall>t \<in> set ?pts. \<not> ?P t" by (simp add: findIndex_none)
    moreover have "handleSearch s = s" using nb True by (simp add: handleSearch_def Let_def)
    ultimately show ?thesis by (simp add: js_includes_sublist)
  next
    case False
    have b: "- 1 \<le> ?r \<and> ?r < int (length ?pts)" by (rule findIndex_bounds)
    with False have lo: "0 \<le> ?r" by linarith
    let ?k = "nat ?r"
    have k: "?k < length ?pts" using b lo by linarith
    have first: "?P (?pts ! ?k) \<and> (\<forall>j < ?k. \<not> ?P (?pts ! j))"
      using findIndex_first [OF False] .
    have "handleSearch s = s\<lparr>currentPage := int ?k + 1\<rparr>"
      using nb False lo by (simp add: handleSearch_def Let_def)
    with k first show ?thesis by (auto simp: js_includes_sublist)
  qed
qed

theorem search_witness:
  "trim ''BANANA'' \<noteq> [] \<and> trim ''kiwi'' \<noteq> [] \<and> trim '' '' = []
   \<and> handleSearch (fruit_ready\<lparr>searchQuery := ''BANANA''\<rparr>)
       = fruit_ready\<lparr>searchQuery := ''BANANA'', currentPage := 2\<rparr>
   \<and> handleSearch (fruit_ready\<lparr>searchQuery := ''kiwi''\<rparr>) = fruit_ready\<lparr>searchQuery := ''kiwi''\<rparr>
   \<and> handleSearch (fruit_ready\<lparr>searchQuery := '' ''\<rparr>) = fruit_ready\<lparr>searchQuery := '' ''\<rparr>"
proof -
  have h1: "trim ''BANANA'' \<noteq> []" and h2: "trim ''kiwi'' \<noteq> []" and h3: "trim '' '' = []"
    by (simp_all add: trim_def js_whitespace_def)
  have e1: "handleSearch (fruit_ready\<lparr>searchQuery := ''BANANA''\<rparr>)
       = fruit_ready\<lparr>searchQuery := ''BANANA'', currentPage := 2\<rparr>"
    by (simp add: handleSearch_def h1 lower_samples Let_def)
  have "\<exists>t \<in> set (pageTexts (pdfState (fruit_ready\<lparr>searchQuery := ''kiwi''\<rparr>))).
          sublist (toLowerCase ''kiwi'') (toLowerCase t)"
    if "k < length (pageTexts (pdfState (fruit_ready\<lparr>searchQuery := ''kiwi''\<rparr>)))"
      and "sublist (toLowerCase ''kiwi'')
             (toLowerCase (pageTexts (pdfState (fruit_ready\<lparr>searchQuery := ''kiwi''\<rparr>)) ! k))"
    for k
    using that nth_mem by blast
  moreover have "\<forall>t \<in> set (pageTexts (pdfState (fruit_ready\<lparr>searchQuery := ''kiwi''\<rparr>))).
          \<not> sublist (toLowerCase ''kiwi'') (toLowerCase t)"
    by (simp add: lower_samples js_includes_sublist [symmetric])
  ultimately have e2: "handleSearch (fruit_ready\<lparr>searchQuery := ''kiwi''\<rparr>)
       = fruit_ready\<lparr>searchQuery := ''kiwi''\<rparr>"
    using search_goes_to_first_matching_page [of "fruit_ready\<lparr>searchQuery := ''kiwi''\<rparr>"] h2
    by auto
  have e3: "handleSearch (fruit_ready\<lparr>searchQuery := '' ''\<rparr>)
       = fruit_ready\<lparr>searchQuery := '' ''\<rparr>"
    using search_goes_to_first_matching_page [of "fruit_ready\<lparr>searchQuery := '' ''\<rparr>"] h3
    by simp
  from h1 h2 h3 e1 e2 e3 show ?thesis by blast
qed

text \<open>
  The claim as stated fails: on page 2 of the fruit document the query is a single space,
  which page 1 contains; the search leaves the page number at 2.
\<close>

theorem blank_search_counterexample:
  "pageTexts (pdfState (app_of (run init_world blank_search_session)))
     = [''apple pie'', ''banana split'', ''cherry tart'']
   \<and> searchQuery (app_of (run init_world blank_search_session)) = '' ''
   \<and> js_includes (toLowerCase ''apple pie'') (toLowerCase '' '')
   \<and> currentPage (app_of (run init_world blank_search_session)) = 2
   \<and> enabled (app_of (run init_world blank_search_session)) SubmitSearch
   \<and> currentPage (app_of (step (run init_world blank_search_session) SubmitSearch)) = 2"
  unfolding blank_search_session_def
  by (simp add: world_defs handler_defs service_defs extract_fruit Let_def lower_defs)

section \<open>Selecting a file that is not a PDF\<close>

text \<open>
  Claim C7. When no file is held and the selection is missing or not of type
  \<open>application/pdf\<close>, only the error message is set: the session stays empty, the
  processing flag and the document data are as before, and no extraction is started.
\<close>

theorem non_pdf_selection_is_rejected:
  assumes "file' (pdfState s) = None"
      and "f = None \<or> (\<exists>fl. f = Some fl \<and> file_type fl \<noteq> ''application/pdf'')"
  shows "handleFileUpload_start s f
           = (s\<lparr>pdfState := (pdfState s)\<lparr>error := Some ''Please upload a valid PDF file.''\<rparr>\<rparr>, None)
     \<and> status_of (pdfState (fst (handleFileUpload_start s f))) = Empty
     \<and> error (pdfState (fst (handleFileUpload_start s f))) = Some ''Please upload a valid PDF file.''
     \<and> isProcessing (pdfState (fst (handleFileUpload_start s f))) = isProcessing (pdfState s)
     \<and> pageTexts (pdfState (fst (handleFileUpload_start s f))) = pageTexts (pdfState s)
     \<and> numPages (pdfState (fst (handleFileUpload_start s f))) = numPages (pdfState s)
     \<and> text' (pdfState (fst (handleFileUpload_start s f))) = text' (pdfState s)
     \<and> pending (step \<lparr>app_of = s, pending = ts\<rparr> (SelectFile f)) = ts"
proof -
  have start: "handleFileUpload_start s f
           = (s\<lparr>pdfState := (pdfState s)\<lparr>error := Some ''Please upload a valid PDF file.''\<rparr>\<rparr>, None)"
    using assms(2) by (auto simp: handleFileUpload_start_def)
  show ?thesis
    using assms(1) by (simp add: start status_of_def step_def spawn_def)
qed

theorem non_pdf_selection_witness:
  "file' (pdfState init_app) = None \<and> file_type notes_txt \<noteq> ''application/pdf''
   \<and> status_of (pdfState (fst (handleFileUpload_start init_app (Some notes_txt)))) = Empty
   \<and> error (pdfState (fst (handleFileUpload_start init_app (Some notes_txt))))
       = Some ''Please upload a valid PDF file.''
   \<and> pageTexts (pdfState (fst (handleFileUpload_start init_app (Some notes_txt)))) = []
   \<and> numPages (pdfState (fst (handleFileUpload_start init_app (Some notes_txt)))) = 0
   \<and> text' (pdfState (fst (handleFileUpload_start init_app (Some notes_txt)))) = []
   \<and> pending (step init_world (SelectFile (Some notes_txt))) = []"
proof -
  have h1: "file' (pdfState init_app) = None" by (simp add: init_app_def)
  have h2: "file_type notes_txt \<noteq> ''application/pdf''" by (simp add: notes_txt_def)
  then have h3: "Some notes_txt = None
      \<or> (\<exists>fl. Some notes_txt = Some fl \<and> file_type fl \<noteq> ''application/pdf'')"
    by simp
  from non_pdf_selection_is_rejected [OF h1 h3, of "[]"] h1 h2 show ?thesis
    by (elim conjE) (simp add: init_world_def init_app_fields)
qed

section \<open>Truncation of the submitted document text\<close>

text \<open>
  Claim C8. The document text that reaches the provider is a prefix of the original. A
  transform call asks the provider with one request, whose contents are a fixed head,
  the first 15000 characters of the text and a fixed tail; a chat call with one whose
  system instruction is a fixed head, the first 20000 characters and a fixed tail. So a
  provider that hands back what it was sent returns exactly these, and a text and its
  prefix give the same request and the same result: the rest of the text is dropped.
\<close>

theorem submitted_text_is_truncated_prefix:
  "prefix (take 15000 docText) docText \<and> length (take 15000 docText) \<le> 15000
   \<and> (\<exists>pre post. \<forall>d. g_contents (action_request d actionPrompt ctx) = pre @ take 15000 d @ post)
   \<and> processDocumentAction env docText actionPrompt ctx
       = processDocumentAction env (take 15000 docText) actionPrompt ctx
   \<and> prefix (take 20000 docText) docText \<and> length (take 20000 docText) \<le> 20000
   \<and> (\<exists>pre post. \<forall>d. c_systemInstruction (chat_request_of d history userMessage)
                          = pre @ take 20000 d @ post)
   \<and> chatWithDocument env docText history userMessage
       = chatWithDocument env (take 20000 docText) history userMessage
   \<and> (\<not> falsy (API_KEY env) \<longrightarrow>
        processDocumentAction env docText actionPrompt ctx
          = (case generateContent env
                    \<lparr>g_model = model_name,
                     g_contents = prompt_head @ take 15000 docText
                                  @ prompt_tail actionPrompt ctx\<rparr> of
               Reply t \<Rightarrow>
                 Inr (or_else t (''I couldn'' @ [CHR 0x27]
                                 @ ''t process the request. Please try again.''))
             | Rejected m \<Rightarrow> Inr (''Error: '' @ or_else m ''Failed to communicate with AI'')))
   \<and> (\<not> falsy (API_KEY env) \<longrightarrow>
        chatWithDocument env docText history userMessage
          = (case sendMessage env
                    \<lparr>c_model = model_name,
                     c_systemInstruction = instruction_head @ take 20000 docText
                                           @ instruction_tail,
                     c_message = userMessage\<rparr> of
               Reply t \<Rightarrow> Inr (or_else t ''No response received.'')
             | Rejected m \<Rightarrow> Inr ''Something went wrong during the conversation.''))
   \<and> (\<not> falsy (API_KEY env) \<and> (\<forall>r. generateContent env r = Reply (Some (g_contents r))) \<longrightarrow>
        processDocumentAction env docText actionPrompt ctx
          = Inr (prompt_head @ take 15000 docText @ prompt_tail actionPrompt ctx))
   \<and> (\<not> falsy (API_KEY env)
        \<and> (\<forall>r. sendMessage env r = Reply (Some (c_systemInstruction r))) \<longrightarrow>
        chatWithDocument env docText history userMessage
          = Inr (instruction_head @ take 20000 docText @ instruction_tail))"
proof (intro conjI)
  show "prefix (take 15000 docText) docText" by (rule take_is_prefix)
  show "length (take 15000 docText) \<le> 15000" by simp
  show "\<exists>pre post. \<forall>d. g_contents (action_request d actionPrompt ctx) = pre @ take 15000 d @ post"
    unfolding action_request_def action_prompt_def by (simp; blast)
  show "processDocumentAction env docText actionPrompt ctx
       = processDocumentAction env (take 15000 docText) actionPrompt ctx"
    unfolding processDocumentAction_def action_request_def action_prompt_def
    by (simp split: sum.split)
  show "prefix (take 20000 docText) docText" by (rule take_is_prefix)
  show "length (take 20000 docText) \<le> 20000" by simp
  show "\<exists>pre post. \<forall>d. c_systemInstruction (chat_request_of d history userMessage)
                          = pre @ take 20000 d @ post"
    unfolding chat_request_of_def system_instruction_def by (simp; blast)
  show "chatWithDocument env docText history userMessage
       = chatWithDocument env (take 20000 docText) history userMessage"
    unfolding chatWithDocument_def chat_request_of_def system_instruction_def
    by (simp split: sum.split)
  show "\<not> falsy (API_KEY env) \<longrightarrow>
        processDocumentAction env docText actionPrompt ctx
          = (case generateContent env
                    \<lparr>g_model = model_name,
                     g_contents = prompt_head @ take 15000 docText
                                  @ prompt_tail actionPrompt ctx\<rparr> of
               Reply t \<Rightarrow>
                 Inr (or_else t (''I couldn'' @ [CHR 0x27]
                                 @ ''t process the request. Please try again.''))
             | Rejected m \<Rightarrow> Inr (''Error: '' @ or_else m ''Failed to communicate with AI''))"
    unfolding processDocumentAction_def action_request_def action_prompt_def getAIClient_def
    by simp
  show "\<not> falsy (API_KEY env) \<longrightarrow>
        chatWithDocument env docText history userMessage
          = (case sendMessage env
                    \<lparr>c_model = model_name,
                     c_systemInstruction = instruction_head @ take 20000 docText
                                           @ instruction_tail,
                     c_message = userMessage\<rparr> of
               Reply t \<Rightarrow> Inr (or_else t ''No response received.'')
             | Rejected m \<Rightarrow> Inr ''Something went wrong during the conversation.'')"
    unfolding chatWithDocument_def chat_request_of_def system_instruction_def getAIClient_def
    by simp
  show "\<not> falsy (API_KEY env) \<and> (\<forall>r. generateContent env r = Reply (Some (g_contents r))) \<longrightarrow>
        processDocumentAction env docText actionPrompt ctx
          = Inr (prompt_head @ take 15000 docText @ prompt_tail actionPrompt ctx)"
    by (simp add: processDocumentAction_def action_request_def action_prompt_def getAIClient_def
          or_else_def)
  show "\<not> falsy (API_KEY env)
        \<and> (\<forall>r. sendMessage env r = Reply (Some (c_systemInstruction r))) \<longrightarrow>
        chatWithDocument env docText history userMessage
          = Inr (instruction_head @ take 20000 docText @ instruction_tail)"
    by (simp add: chatWithDocument_def chat_request_of_def system_instruction_def getAIClient_def
          or_else_def)
qed

theorem submitted_text_witness:
  "\<not> falsy (API_KEY provider_echo)
   \<and> processDocumentAction provider_echo (replicate 15001 CHR ''x'') ''Summarize'' []
       = Inr (prompt_head @ replicate 15000 CHR ''x'' @ prompt_tail ''Summarize'' [])
   \<and> chatWithDocument provider_echo (replicate 20001 CHR ''x'') [] ''hi''
       = Inr (instruction_head @ replicate 20000 CHR ''x'' @ instruction_tail)
   \<and> processDocumentAction provider_down (replicate 15001 CHR ''x'') ''Summarize'' []
       = processDocumentAction provider_down (replicate 15000 CHR ''x'') ''Summarize'' []"
proof -
  have k: "\<not> falsy (API_KEY provider_echo)" by (simp add: falsy_def)
  have g: "\<forall>r. generateContent provider_echo r = Reply (Some (g_contents r))" by simp
  have m: "\<forall>r. sendMessage provider_echo r = Reply (Some (c_systemInstruction r))" by simp
  from submitted_text_is_truncated_prefix
         [of "replicate 15001 CHR ''x''" "''Summarize''" "[]" provider_echo "[]" "''hi''"] k g
  have a: "processDocumentAction provider_echo (replicate 15001 CHR ''x'') ''Summarize'' []
       = Inr (prompt_head @ replicate 15000 CHR ''x'' @ prompt_tail ''Summarize'' [])"
    by (elim conjE) simp
  from submitted_text_is_truncated_prefix
         [of "replicate 20001 CHR ''x''" "''Summarize''" "[]" provider_echo "[]" "''hi''"] k m
  have b: "chatWithDocument provider_echo (replicate 20001 CHR ''x'') [] ''hi''
       = Inr (instruction_head @ replicate 20000 CHR ''x'' @ instruction_tail)"
    by (elim conjE) simp
  from submitted_text_is_truncated_prefix
         [of "replicate 15001 CHR ''x''" "''Summarize''" "[]" provider_down "[]" "[]"]
  have c: "processDocumentAction provider_down (replicate 15001 CHR ''x'') ''Summarize'' []
       = processDocumentAction provider_down (replicate 15000 CHR ''x'') ''Summarize'' []"
    by (elim conjE) simp
  from k a b c show ?thesis by blast
qed

section \<open>The transcript over a session\<close>

text \<open>
  Claim C9, as the code has it. The transcript only grows: every event, and every sequence
  of events, leaves the transcript it found as a prefix of the new one. Closing the
  workspace and selecting a file are no exception; they leave the transcript as it is.
\<close>

theorem transcript_only_grows:
  "prefix (chatHistory (app_of w)) (chatHistory (app_of (step w ev)))
   \<and> prefix (chatHistory (app_of w)) (chatHistory (app_of (run w evs)))
   \<and> chatHistory (close_click s) = chatHistory s
   \<and> chatHistory (fst (handleFileUpload_start s f)) = chatHistory s
   \<and> chatHistory (handleFileUpload_finish s fl) = chatHistory s"
proof (intro conjI)
  show "prefix (chatHistory (app_of w)) (chatHistory (app_of (step w ev)))"
    by (rule step_transcript_grows)
  show "prefix (chatHistory (app_of w)) (chatHistory (app_of (run w evs)))"
    by (rule run_transcript_grows)
  show "chatHistory (close_click s) = chatHistory s"
    by (simp add: close_click_def)
  show "chatHistory (fst (handleFileUpload_start s f)) = chatHistory s"
    by (simp add: handleFileUpload_start_def split: option.split)
  show "chatHistory (handleFileUpload_finish s fl) = chatHistory s"
    by (simp add: handleFileUpload_finish_def upload_failed_def Let_def split: option.split)
qed

theorem transcript_only_grows_witness:
  "prefix [\<lparr>role = User, content = ''hi''\<rparr>, \<lparr>role = Assistant, content = ''Revenue grew.''\<rparr>]
     (chatHistory (app_of (run \<lparr>app_of = worked_state, pending = []\<rparr>
        [Close, SelectFile (Some fruit_pdf), Resolve 0])))
   \<and> chatHistory (close_click worked_state)
       = [\<lparr>role = User, content = ''hi''\<rparr>, \<lparr>role = Assistant, content = ''Revenue grew.''\<rparr>]"
  using transcript_only_grows [of "\<lparr>app_of = worked_state, pending = []\<rparr>" Close
          "[Close, SelectFile (Some fruit_pdf), Resolve 0]" worked_state None fruit_pdf]
  by (elim conjE) simp

text \<open>
  The claim as stated fails: after \<open>worked_session\<close> the workspace is closed; the session
  is empty and the transcript still holds both messages.
\<close>

theorem transcript_survives_close_counterexample:
  "status_of (pdfState (app_of (run init_world closed_session))) = Empty
   \<and> chatHistory (app_of (run init_world closed_session))
       = [\<lparr>role = User, content = ''hi''\<rparr>, \<lparr>role = Assistant, content = ''Revenue grew.''\<rparr>]"
  by (simp add: run_closed_session close_click_def status_of_def)

section \<open>The history argument of the chat call\<close>

text \<open>
  Claim C10. The history handed to \<open>chatWithDocument\<close> has no effect: two histories give
  the same request and the same result for the same document text, message and
  surroundings, and the call started by the message form is the same whatever the
  transcript holds.
\<close>

theorem chat_history_has_no_effect:
  "chat_request_of docText h1 userMessage = chat_request_of docText h2 userMessage
   \<and> chatWithDocument env docText h1 userMessage = chatWithDocument env docText h2 userMessage
   \<and> snd (handleSendMessage_start (s\<lparr>chatHistory := h1\<rparr>) env)
       = snd (handleSendMessage_start (s\<lparr>chatHistory := h2\<rparr>) env)"
  unfolding handleSendMessage_start_def chatWithDocument_def chat_request_of_def Let_def
  by (simp split: sum.split)

theorem chat_history_witness:
  "chatWithDocument provider_ok ''doc'' [] ''hi''
     = chatWithDocument provider_ok ''doc'' [\<lparr>role = User, content = ''earlier''\<rparr>] ''hi''"
  using chat_history_has_no_effect
          [of "''doc''" "[]" "''hi''" "[\<lparr>role = User, content = ''earlier''\<rparr>]" provider_ok]
  by simp

end
